theory Spec2Isabelle
  imports Complex_Main "HOL-Library.Sublist" "HOL-Library.Log_Nat" "HOL-Library.Word"
begin

section \<open>The PDF viewer component (src/components/pdf/PDFViewer.jsx)\<close>

text \<open>
  The component keeps its session in React state cells and changes them only through
  the handlers below. Each handler is embedded as a function from the state before to
  the state after. What the handlers read from the browser (the current selection, the
  container's bounding rectangle, the clock, the random generator) is an argument.
\<close>

subsection \<open>Numbers\<close>

text \<open>
  A JavaScript number is an IEEE 754 double. It is embedded as the real number that it
  denotes, and every addition, subtraction and multiplication of the source is followed
  by \<open>fl\<close>, the rounding of the exact result to the nearest double, ties to the even
  significand. \<open>binade x\<close> is the exponent \<open>e\<close> with
  \<open>2 powi e \<le> \<bar>x\<bar>\<close> and \<open>\<bar>x\<bar> < 2 powi (e + 1)\<close>. A double has 53 significant bits,
  so the doubles of that binade are the multiples of \<open>2 powi (e - 52)\<close>; below
  \<open>2 powi (- 1022)\<close> their spacing stays \<open>2 powi (- 1074)\<close>. Infinities and NaN are
  outside the embedding: no value here comes near the largest double. Page numbers are
  integers far below \<open>2 ^ 53\<close>, where doubles are exact, and are embedded as integers.
\<close>

definition roundHalfEven :: "real \<Rightarrow> int" where
  "roundHalfEven x =
     (let n = \<lfloor>x\<rfloor>; r = x - of_int n
      in if r < 1 / 2 then n else if 1 / 2 < r then n + 1 else if even n then n else n + 1)"

definition binade :: "real \<Rightarrow> int" where
  "binade x =
     (let a = \<bar>x\<bar>
      in if 1 \<le> a then bitlen \<lfloor>a\<rfloor> - 1 else - bitlen (\<lceil>1 / a\<rceil> - 1))"

definition fl :: "real \<Rightarrow> real" where
  "fl x =
     (let u = 2 powi (max (binade x) (- 1022) - 52)
      in of_int (roundHalfEven (x / u)) * u)"

subsection \<open>Strings\<close>

text \<open>
  A JavaScript string is a sequence of UTF-16 code units. \<open>String.prototype.trim\<close>
  removes, at both ends, the code units of the ECMAScript productions WhiteSpace and
  LineTerminator: tab, line feed, vertical tab, form feed, carriage return, space,
  no-break space, the Unicode space separators (U+1680, U+2000 to U+200A, U+202F,
  U+205F, U+3000), the line and paragraph separators, and U+FEFF. Colours, file names,
  MIME types and messages are plain ASCII and are kept as \<open>string\<close>.
\<close>

type_synonym code_unit = "16 word"

definition isWhitespace :: "code_unit \<Rightarrow> bool" where
  "isWhitespace c =
     (c = 0x0009 \<or> c = 0x000A \<or> c = 0x000B \<or> c = 0x000C \<or> c = 0x000D \<or> c = 0x0020
      \<or> c = 0x00A0 \<or> c = 0x1680 \<or> (0x2000 \<le> c \<and> c \<le> 0x200A)
      \<or> c = 0x2028 \<or> c = 0x2029 \<or> c = 0x202F \<or> c = 0x205F \<or> c = 0x3000
      \<or> c = 0xFEFF)"

definition trim :: "code_unit list \<Rightarrow> code_unit list" where
  "trim t = rev (dropWhile isWhitespace (rev (dropWhile isWhitespace t)))"

subsection \<open>Data\<close>

text \<open>A \<open>DOMRect\<close>, and the \<open>position\<close> object of a highlight (fields x, y, width, height).\<close>

record rect =
  rect_x :: real
  rect_y :: real
  rect_width :: real
  rect_height :: real

text \<open>
  The highlight object built in \<open>handleTextSelect\<close>. Besides its five properties the
  object has an identity, which \<open>Array.prototype.indexOf\<close> compares: \<open>hl_ref\<close> is the
  reference of the object, the number of highlight objects that were created before it.
\<close>

record highlight =
  hl_ref :: nat
  hl_id :: real
  hl_text :: "code_unit list"
  hl_pageNumber :: int
  hl_color :: string
  hl_position :: rect

type_synonym bytes = "nat list"

text \<open>The \<open>File\<close> picked in the file input: its name, MIME type and content.\<close>

record pdf_file =
  file_name :: string
  file_type :: string
  file_content :: bytes

text \<open>
  The \<open>useState\<close> cells of the component (\<open>pickedFile\<close> is the cell \<open>file\<close>), and
  with them \<open>objectsMade\<close>, which is no cell of the component: it counts the highlight
  objects created so far and so gives the next object its reference.
\<close>

record state =
  pickedFile :: "pdf_file option"
  numPages :: "int option"
  pageNumber :: int
  scale :: real
  highlights :: "highlight list"
  isSelecting :: bool
  selectedText :: "code_unit list"
  highlightColor :: string
  pdfBytes :: "bytes option"
  objectsMade :: nat

definition initial :: state where
  "initial = \<lparr>pickedFile = None, numPages = None, pageNumber = 1, scale = 1.0,
     highlights = [], isSelecting = False, selectedText = [],
     highlightColor = ''#FFFF00'', pdfBytes = None, objectsMade = 0\<rparr>"

subsection \<open>Loading a file\<close>

text \<open>
  \<open>onFileChange\<close>: the picked file is kept when there is one and its type is
  \<open>application/pdf\<close>; otherwise only an error toast is shown. The \<open>FileReader\<close>
  then delivers the bytes (\<open>reader.onload\<close>), and the rendering library reports the
  page count (\<open>onDocumentLoadSuccess\<close>).
\<close>

definition onFileChange :: "pdf_file option \<Rightarrow> state \<Rightarrow> state" where
  "onFileChange selectedFile s =
     (case selectedFile of
        None \<Rightarrow> s
      | Some f \<Rightarrow> if file_type f = ''application/pdf'' then s\<lparr>pickedFile := Some f\<rparr> else s)"

definition readerOnLoad :: "bytes \<Rightarrow> state \<Rightarrow> state" where
  "readerOnLoad result s = s\<lparr>pdfBytes := Some result\<rparr>"

definition onDocumentLoadSuccess :: "int \<Rightarrow> state \<Rightarrow> state" where
  "onDocumentLoadSuccess n s = s\<lparr>numPages := Some n, pageNumber := 1\<rparr>"

text \<open>
  A complete successful load of file \<open>f\<close> whose document has \<open>n\<close> pages: the three
  handlers in the order in which the browser runs them.
\<close>

definition loadFile :: "pdf_file \<Rightarrow> int \<Rightarrow> state \<Rightarrow> state" where
  "loadFile f n s =
     onDocumentLoadSuccess n (readerOnLoad (file_content f) (onFileChange (Some f) s))"

subsection \<open>Paging and zoom\<close>

text \<open>
  \<open>Math.min(Math.max(1, newPage), numPages)\<close>; a \<open>null\<close> page count is the number 0
  under \<open>Math.min\<close>.
\<close>

definition changePage :: "int \<Rightarrow> state \<Rightarrow> state" where
  "changePage offset s =
     (let newPage = pageNumber s + offset
      in s\<lparr>pageNumber :=
             min (max 1 newPage) (case numPages s of None \<Rightarrow> 0 | Some n \<Rightarrow> n)\<rparr>)"

definition previousPage :: "state \<Rightarrow> state" where
  "previousPage = changePage (- 1)"

definition nextPage :: "state \<Rightarrow> state" where
  "nextPage = changePage 1"

text \<open>
  \<open>Math.min(prev + 0.2, 3.0)\<close> and \<open>Math.max(prev - 0.2, 0.5)\<close>. The literal \<open>0.2\<close>
  is the double nearest to one fifth, \<open>fl 0.2\<close>; 3.0 and 0.5 are doubles.
\<close>

definition zoomIn :: "state \<Rightarrow> state" where
  "zoomIn s = s\<lparr>scale := min (fl (scale s + fl 0.2)) 3.0\<rparr>"

definition zoomOut :: "state \<Rightarrow> state" where
  "zoomOut s = s\<lparr>scale := max (fl (scale s - fl 0.2)) 0.5\<rparr>"

subsection \<open>Selection capture\<close>

text \<open>
  What \<open>window.getSelection()\<close> gives the handler: its string, its range count, and the
  bounding client rectangle of its first range (\<open>None\<close> when \<open>getRangeAt\<close> or
  \<open>getBoundingClientRect\<close> throws; the handler's \<open>catch\<close> then only logs).
\<close>

record selection =
  sel_toString :: "code_unit list"
  sel_rangeCount :: nat
  sel_rect :: "rect option"

text \<open>
  The values of \<open>Date.now()\<close>, an integer number of milliseconds, and of
  \<open>Math.random()\<close>, a double in \<open>[0, 1)\<close>, at the capture. The id is their sum as a double.
\<close>

record env =
  env_now :: int
  env_random :: real

definition freshId :: "env \<Rightarrow> real" where
  "freshId e = fl (real_of_int (env_now e) + env_random e)"

text \<open>The \<open>position\<close> object: the selection rectangle relative to the container.\<close>

definition capturePosition :: "rect \<Rightarrow> rect \<Rightarrow> rect" where
  "capturePosition r containerRect =
     \<lparr>rect_x = max 0 (fl (rect_x r - rect_x containerRect)),
      rect_y = max 0 (fl (rect_y r - rect_y containerRect)),
      rect_width = rect_width r,
      rect_height = rect_height r\<rparr>"

text \<open>
  \<open>handleTextSelect\<close>, with the container's bounding rectangle (\<open>None\<close> when
  \<open>containerRef.current\<close> is null). Every early \<open>return\<close> leaves the state as it is.
\<close>

definition handleTextSelect :: "env \<Rightarrow> selection \<Rightarrow> rect option \<Rightarrow> state \<Rightarrow> state" where
  "handleTextSelect e sel container s =
     (if isSelecting s then
        (let text = trim (sel_toString sel) in
         if text = [] then s
         else if sel_rangeCount sel = 0 then s
         else
           (case sel_rect sel of
              None \<Rightarrow> s
            | Some r \<Rightarrow>
                (case container of
                   None \<Rightarrow> s
                 | Some containerRect \<Rightarrow>
                     if rect_width r < 5 \<or> rect_height r < 5 then s
                     else
                       s\<lparr>highlights := highlights s @
                            [\<lparr>hl_ref = objectsMade s, hl_id = freshId e, hl_text = text,
                              hl_pageNumber = pageNumber s,
                              hl_color = highlightColor s,
                              hl_position = capturePosition r containerRect\<rparr>],
                          selectedText := text,
                          objectsMade := Suc (objectsMade s)\<rparr>)))
      else s)"

definition toggleHighlightMode :: "state \<Rightarrow> state" where
  "toggleHighlightMode s = s\<lparr>isSelecting := \<not> isSelecting s\<rparr>"

definition setHighlightColor :: "string \<Rightarrow> state \<Rightarrow> state" where
  "setHighlightColor c s = s\<lparr>highlightColor := c\<rparr>"

definition removeHighlight :: "real \<Rightarrow> state \<Rightarrow> state" where
  "removeHighlight i s = s\<lparr>highlights := filter (\<lambda>h. hl_id h \<noteq> i) (highlights s)\<rparr>"

subsection \<open>Overlay and sidebar\<close>

text \<open>The highlights drawn over page \<open>pageIdx\<close>: \<open>highlights.filter(h => h.pageNumber === pageIdx)\<close>.\<close>

definition byPage :: "int \<Rightarrow> highlight list \<Rightarrow> highlight list" where
  "byPage pageIdx hs = filter (\<lambda>h. hl_pageNumber h = pageIdx) hs"

text \<open>
  The inline style of the overlay of one highlight at the current scale: \<open>left\<close> and
  \<open>top\<close> are the rectangle's x and y.
\<close>

definition overlayStyle :: "real \<Rightarrow> rect \<Rightarrow> rect" where
  "overlayStyle sc p =
     \<lparr>rect_x = fl (rect_x p * sc), rect_y = fl (rect_y p * sc),
      rect_width = fl (rect_width p * sc), rect_height = fl (rect_height p * sc)\<rparr>"

definition pageOverlays :: "state \<Rightarrow> int \<Rightarrow> rect list" where
  "pageOverlays s pageIdx =
     map (\<lambda>h. overlayStyle (scale s) (hl_position h)) (byPage pageIdx (highlights s))"

text \<open>The click handler of a sidebar entry: \<open>setPageNumber(highlight.pageNumber)\<close>.\<close>

definition navigateToHighlight :: "highlight \<Rightarrow> state \<Rightarrow> state" where
  "navigateToHighlight h s = s\<lparr>pageNumber := hl_pageNumber h\<rparr>"

subsection \<open>Export\<close>

text \<open>
  The PDF editing library is external. It is a parameter of the export: a record of its
  five operations over documents of a type \<open>'doc\<close>, each of which may throw (\<open>None\<close>).
  \<open>lib_getPageHeight d i\<close> is \<open>d.getPage(i).getSize().height\<close>; the drawing calls give
  the document after the drawing on page \<open>i\<close>.
\<close>

text \<open>
  The arguments of \<open>page.drawRectangle\<close> and \<open>page.drawText\<close>. The colour of the
  rectangle is kept as the three two-character substrings of the hex colour that the source
  hands to \<open>parseInt\<close>; the library's \<open>rgb\<close> gets their values over 255, and when it
  throws, that is a failure of \<open>lib_drawRectangle\<close>. The text is always drawn with
  \<open>rgb(0, 0, 0)\<close>.
\<close>

record rectangle_options =
  ro_x :: real
  ro_y :: real
  ro_width :: real
  ro_height :: real
  ro_color :: "string \<times> string \<times> string"
  ro_opacity :: real

record text_options =
  to_x :: real
  to_y :: real
  to_size :: real

record 'doc pdf_lib =
  lib_load :: "bytes \<Rightarrow> 'doc option"
  lib_getPageHeight :: "'doc \<Rightarrow> int \<Rightarrow> real option"
  lib_drawRectangle :: "'doc \<Rightarrow> int \<Rightarrow> rectangle_options \<Rightarrow> 'doc option"
  lib_drawText :: "'doc \<Rightarrow> int \<Rightarrow> code_unit list \<Rightarrow> text_options \<Rightarrow> 'doc option"
  lib_save :: "'doc \<Rightarrow> bytes option"

text \<open>
  \<open>Array.prototype.indexOf\<close>: the first index of the element, or \<open>-1\<close>. On an array of
  objects it compares identities: it is applied to the references of the highlights.
\<close>

fun indexOf :: "'a list \<Rightarrow> 'a \<Rightarrow> int" where
  "indexOf [] a = - 1"
| "indexOf (b # bs) a =
     (if b = a then 0 else (let i = indexOf bs a in if i < 0 then - 1 else i + 1))"

text \<open>\<open>highlight.color.replace('#', '')\<close> and the three \<open>substr\<close> calls.\<close>

definition hexChannels :: "string \<Rightarrow> string \<times> string \<times> string" where
  "hexChannels c =
     (let hexColor = remove1 (CHR ''#'') c
      in (take 2 hexColor, take 2 (drop 2 hexColor), take 2 (drop 4 hexColor)))"

text \<open>\<open>height - 100 - (highlights.indexOf(highlight) * 20)\<close>, and the same with 95.\<close>

definition rectangleOptions :: "real \<Rightarrow> highlight list \<Rightarrow> highlight \<Rightarrow> rectangle_options" where
  "rectangleOptions height hs h =
     \<lparr>ro_x = 50,
      ro_y = fl (fl (height - 100) - fl (real_of_int (indexOf (map hl_ref hs) (hl_ref h)) * 20)),
      ro_width = 200,
      ro_height = 15,
      ro_color = hexChannels (hl_color h),
      ro_opacity = 0.5\<rparr>"

definition textOptions :: "real \<Rightarrow> highlight list \<Rightarrow> highlight \<Rightarrow> text_options" where
  "textOptions height hs h =
     \<lparr>to_x = 55,
      to_y = fl (fl (height - 95) - fl (real_of_int (indexOf (map hl_ref hs) (hl_ref h)) * 20)),
      to_size = 8\<rparr>"

text \<open>
  The body of the \<open>for (const highlight of highlights)\<close> loop for one highlight, and the
  loop over the rest of the list; \<open>hs\<close> is the whole list, which \<open>indexOf\<close> searches.
\<close>

definition drawHighlight :: "'doc pdf_lib \<Rightarrow> highlight list \<Rightarrow> highlight \<Rightarrow> 'doc \<Rightarrow> 'doc option" where
  "drawHighlight lib hs h d =
     (let i = hl_pageNumber h - 1 in
      case lib_getPageHeight lib d i of
        None \<Rightarrow> None
      | Some height \<Rightarrow>
          (case lib_drawRectangle lib d i (rectangleOptions height hs h) of
             None \<Rightarrow> None
           | Some d1 \<Rightarrow> lib_drawText lib d1 i (take 50 (hl_text h)) (textOptions height hs h)))"

fun drawHighlights :: "'doc pdf_lib \<Rightarrow> highlight list \<Rightarrow> highlight list \<Rightarrow> 'doc \<Rightarrow> 'doc option" where
  "drawHighlights lib hs [] d = Some d"
| "drawHighlights lib hs (h # rest) d =
     (case drawHighlight lib hs h d of
        None \<Rightarrow> None
      | Some d' \<Rightarrow> drawHighlights lib hs rest d')"

text \<open>What the user gets from an action: a toast, or a file offered for download.\<close>

datatype effect =
    Toast_error string
  | Toast_success string
  | Download bytes string

text \<open>
  \<open>savePDF\<close>: the state after it (no state cell is set) and its effects. Any exception
  of the \<open>try\<close> block ends in the \<open>catch\<close>, whose only effect is the error toast.
\<close>

definition savePDF :: "'doc pdf_lib \<Rightarrow> state \<Rightarrow> state \<times> effect list" where
  "savePDF lib s =
     (case pdfBytes s of
        None \<Rightarrow> (s, [Toast_error ''No PDF loaded''])
      | Some b \<Rightarrow>
          (case lib_load lib b of
             None \<Rightarrow> (s, [Toast_error ''Failed to save PDF''])
           | Some pdfDoc \<Rightarrow>
               (case drawHighlights lib (highlights s) (highlights s) pdfDoc of
                  None \<Rightarrow> (s, [Toast_error ''Failed to save PDF''])
                | Some d \<Rightarrow>
                    (case lib_save lib d of
                       None \<Rightarrow> (s, [Toast_error ''Failed to save PDF''])
                     | Some pdfBytesModified \<Rightarrow>
                         (s, [Download pdfBytesModified ''edited_document.pdf'',
                              Toast_success ''PDF saved successfully''])))))"

subsection \<open>Sessions\<close>

text \<open>
  The events of a session, each with what the browser supplies, and the handler that each
  runs. The paging buttons are rendered only for a truthy page count and are disabled at
  the first and the last page; a sidebar entry exists only for a highlight of the list.
\<close>

datatype event =
    FileChange "pdf_file option"
  | ReaderLoad bytes
  | DocumentLoadSuccess int
  | PreviousPage
  | NextPage
  | ZoomIn
  | ZoomOut
  | ToggleHighlightMode
  | ColorChange string
  | MouseUp env selection "rect option"
  | RemoveHighlight real
  | SidebarClick nat

definition pagerShown :: "state \<Rightarrow> bool" where
  "pagerShown s = (case numPages s of None \<Rightarrow> False | Some n \<Rightarrow> n \<noteq> 0)"

fun step :: "state \<Rightarrow> event \<Rightarrow> state" where
  "step s (FileChange f) = onFileChange f s"
| "step s (ReaderLoad b) = readerOnLoad b s"
| "step s (DocumentLoadSuccess n) = onDocumentLoadSuccess n s"
| "step s PreviousPage =
     (if pagerShown s \<and> 1 < pageNumber s then previousPage s else s)"
| "step s NextPage =
     (if pagerShown s \<and> pageNumber s < (case numPages s of None \<Rightarrow> 0 | Some n \<Rightarrow> n)
      then nextPage s else s)"
| "step s ZoomIn = zoomIn s"
| "step s ZoomOut = zoomOut s"
| "step s ToggleHighlightMode = toggleHighlightMode s"
| "step s (ColorChange c) = setHighlightColor c s"
| "step s (MouseUp e sel container) = handleTextSelect e sel container s"
| "step s (RemoveHighlight i) = removeHighlight i s"
| "step s (SidebarClick k) =
     (if k < length (highlights s) then navigateToHighlight (highlights s ! k) s else s)"

definition run :: "state \<Rightarrow> event list \<Rightarrow> state" where
  "run s evs = foldl step s evs"

subsection \<open>Predicates of the properties\<close>

text \<open>
  The white space of ECMAScript, code unit by code unit, as the properties speak of it.
\<close>

definition whiteSpaceUnits :: "code_unit list" where
  "whiteSpaceUnits =
     [0x0009, 0x000A, 0x000B, 0x000C, 0x000D, 0x0020, 0x00A0, 0x1680,
      0x2000, 0x2001, 0x2002, 0x2003, 0x2004, 0x2005, 0x2006, 0x2007, 0x2008, 0x2009,
      0x200A, 0x2028, 0x2029, 0x202F, 0x205F, 0x3000, 0xFEFF]"

text \<open>
  The shape of a stored highlight: a position with non-negative origin and at least 5 by
  5 in size, and a text that is not empty, neither begins nor ends with white space, and
  so is not empty after trimming.
\<close>

definition wellFormed :: "highlight \<Rightarrow> bool" where
  "wellFormed h =
     (0 \<le> rect_x (hl_position h) \<and> 0 \<le> rect_y (hl_position h)
      \<and> 5 \<le> rect_width (hl_position h) \<and> 5 \<le> rect_height (hl_position h)
      \<and> hl_text h \<noteq> []
      \<and> hd (hl_text h) \<notin> set whiteSpaceUnits
      \<and> last (hl_text h) \<notin> set whiteSpaceUnits
      \<and> trim (hl_text h) \<noteq> [])"


text \<open>The current page lies within the loaded document (nothing is asked before a load).\<close>

definition pageInRange :: "state \<Rightarrow> bool" where
  "pageInRange s =
     (case numPages s of None \<Rightarrow> True | Some n \<Rightarrow> 1 \<le> pageNumber s \<and> pageNumber s \<le> n)"

text \<open>
  The export with every marker at the offset of its place: the marker of the highlight
  at place \<open>k\<close> of the list is drawn at the offsets of \<open>k\<close>, on the highlight's page and
  from that page's height; the loop counts the places; \<open>exportByPlace\<close> is \<open>savePDF\<close>
  with that loop.
\<close>

definition markerAt :: "'doc pdf_lib \<Rightarrow> nat \<Rightarrow> highlight \<Rightarrow> 'doc \<Rightarrow> 'doc option" where
  "markerAt lib k h d =
     (let i = hl_pageNumber h - 1 in
      case lib_getPageHeight lib d i of
        None \<Rightarrow> None
      | Some height \<Rightarrow>
          (case lib_drawRectangle lib d i
                  \<lparr>ro_x = 50, ro_y = fl (fl (height - 100) - fl (real k * 20)),
                   ro_width = 200, ro_height = 15, ro_color = hexChannels (hl_color h),
                   ro_opacity = 0.5\<rparr> of
             None \<Rightarrow> None
           | Some d1 \<Rightarrow>
               lib_drawText lib d1 i (take 50 (hl_text h))
                 \<lparr>to_x = 55, to_y = fl (fl (height - 95) - fl (real k * 20)), to_size = 8\<rparr>))"

fun markersFrom :: "'doc pdf_lib \<Rightarrow> nat \<Rightarrow> highlight list \<Rightarrow> 'doc \<Rightarrow> 'doc option" where
  "markersFrom lib k [] d = Some d"
| "markersFrom lib k (h # rest) d =
     (case markerAt lib k h d of
        None \<Rightarrow> None
      | Some d' \<Rightarrow> markersFrom lib (Suc k) rest d')"

definition exportByPlace :: "'doc pdf_lib \<Rightarrow> state \<Rightarrow> state \<times> effect list" where
  "exportByPlace lib s =
     (case pdfBytes s of
        None \<Rightarrow> (s, [Toast_error ''No PDF loaded''])
      | Some b \<Rightarrow>
          (case lib_load lib b of
             None \<Rightarrow> (s, [Toast_error ''Failed to save PDF''])
           | Some pdfDoc \<Rightarrow>
               (case markersFrom lib 0 (highlights s) pdfDoc of
                  None \<Rightarrow> (s, [Toast_error ''Failed to save PDF''])
                | Some d \<Rightarrow>
                    (case lib_save lib d of
                       None \<Rightarrow> (s, [Toast_error ''Failed to save PDF''])
                     | Some pdfBytesModified \<Rightarrow>
                         (s, [Download pdfBytesModified ''edited_document.pdf'',
                              Toast_success ''PDF saved successfully''])))))"

subsection \<open>A stub of the editing library\<close>

text \<open>
  For running the export on examples: a document is the list of its pages, each with its
  height and the drawing calls made on it so far. \<open>getPage\<close> throws outside the page
  range, as the library's does; loading gives blank pages of the given heights, and what
  \<open>save\<close> does is a parameter.
\<close>

datatype draw_op =
    DrawRectangle rectangle_options
  | DrawText "code_unit list" text_options

record page =
  page_height :: real
  page_ops :: "draw_op list"

definition drawOn :: "page list \<Rightarrow> int \<Rightarrow> draw_op \<Rightarrow> page list option" where
  "drawOn d i c =
     (if 0 \<le> i \<and> i < int (length d)
      then Some (d[nat i := (d ! nat i)\<lparr>page_ops := page_ops (d ! nat i) @ [c]\<rparr>])
      else None)"

definition recorderLib :: "real list \<Rightarrow> (page list \<Rightarrow> bytes option) \<Rightarrow> page list pdf_lib" where
  "recorderLib heights save =
     \<lparr>lib_load = (\<lambda>b. Some (map (\<lambda>h. \<lparr>page_height = h, page_ops = []\<rparr>) heights)),
      lib_getPageHeight =
        (\<lambda>d i. if 0 \<le> i \<and> i < int (length d) then Some (page_height (d ! nat i)) else None),
      lib_drawRectangle = (\<lambda>d i opts. drawOn d i (DrawRectangle opts)),
      lib_drawText = (\<lambda>d i str opts. drawOn d i (DrawText str opts)),
      lib_save = save\<rparr>"

subsection \<open>Example sessions\<close>

definition exampleFile :: pdf_file where
  "exampleFile =
     \<lparr>file_name = ''a.pdf'', file_type = ''application/pdf'', file_content = [37, 80, 68, 70]\<rparr>"

definition exampleContainer :: rect where
  "exampleContainer = \<lparr>rect_x = 10, rect_y = 10, rect_width = 800, rect_height = 600\<rparr>"

text \<open>The strings \<open>" Hello "\<close>, \<open>"Hello"\<close> and \<open>"world"\<close>.\<close>

definition spacedHello :: "code_unit list" where
  "spacedHello = [0x20, 0x48, 0x65, 0x6C, 0x6C, 0x6F, 0x20]"

definition hello :: "code_unit list" where
  "hello = [0x48, 0x65, 0x6C, 0x6C, 0x6F]"

definition world :: "code_unit list" where
  "world = [0x77, 0x6F, 0x72, 0x6C, 0x64]"

text \<open>A no-break space, an em space, a line feed and the byte order mark.\<close>

definition blankText :: "code_unit list" where
  "blankText = [0x00A0, 0x2003, 0x000A, 0xFEFF]"

definition exampleSelection :: selection where
  "exampleSelection =
     \<lparr>sel_toString = spacedHello, sel_rangeCount = 1,
      sel_rect = Some \<lparr>rect_x = 110, rect_y = 210, rect_width = 40, rect_height = 12\<rparr>\<rparr>"

definition otherSelection :: selection where
  "otherSelection =
     \<lparr>sel_toString = world, sel_rangeCount = 1,
      sel_rect = Some \<lparr>rect_x = 60, rect_y = 310, rect_width = 50, rect_height = 12\<rparr>\<rparr>"

text \<open>The selection of the words of \<open>exampleSelection\<close> when the page is rendered at scale 0.5.\<close>

definition zoomedSelection :: selection where
  "zoomedSelection =
     \<lparr>sel_toString = spacedHello, sel_rangeCount = 1,
      sel_rect = Some \<lparr>rect_x = 60, rect_y = 110, rect_width = 20, rect_height = 6\<rparr>\<rparr>"

definition exampleEnv :: env where
  "exampleEnv = \<lparr>env_now = 1700000000000, env_random = 0.5\<rparr>"

text \<open>In the same millisecond, another random value: \<open>0.5 + 2 ^ -14\<close>, a double.\<close>

definition nearbyEnv :: env where
  "nearbyEnv = \<lparr>env_now = 1700000000000, env_random = 8193 / 16384\<rparr>"

definition laterEnv :: env where
  "laterEnv = \<lparr>env_now = 1700000004000, env_random = 0.25\<rparr>"

definition thirdEnv :: env where
  "thirdEnv = \<lparr>env_now = 1700000009000, env_random = 0.75\<rparr>"

text \<open>A stored position, and a container whose origin is the origin of the screen.\<close>

definition examplePosition :: rect where
  "examplePosition = \<lparr>rect_x = 100, rect_y = 200, rect_width = 40, rect_height = 12\<rparr>"

definition originContainer :: rect where
  "originContainer = \<lparr>rect_x = 0, rect_y = 0, rect_width = 800, rect_height = 600\<rparr>"

text \<open>
  The stub for a document of two pages of height 800: one whose \<open>save\<close> gives bytes,
  one whose \<open>save\<close> throws, one whose \<open>drawRectangle\<close> throws and one whose
  \<open>drawText\<close> throws. \<open>blankPages\<close> is the document that they load.
\<close>

definition blankPages :: "page list" where
  "blankPages = [\<lparr>page_height = 800, page_ops = []\<rparr>, \<lparr>page_height = 800, page_ops = []\<rparr>]"

definition exampleLib :: "page list pdf_lib" where
  "exampleLib = recorderLib [800, 800] (\<lambda>d. Some [37, 80, 68, 70, 10])"

definition failingSaveLib :: "page list pdf_lib" where
  "failingSaveLib = recorderLib [800, 800] (\<lambda>d. None)"

definition failingRectangleLib :: "page list pdf_lib" where
  "failingRectangleLib = exampleLib\<lparr>lib_drawRectangle := (\<lambda>d i opts. None)\<rparr>"

definition failingTextLib :: "page list pdf_lib" where
  "failingTextLib = exampleLib\<lparr>lib_drawText := (\<lambda>d i str opts. None)\<rparr>"

text \<open>Highlight mode on, one capture.\<close>

definition captureTrace :: "event list" where
  "captureTrace =
     [ToggleHighlightMode, MouseUp exampleEnv exampleSelection (Some exampleContainer)]"


text \<open>
  The same selection is captured twice at the same clock and random values: two highlight
  objects with the same five properties.
\<close>

definition repeatedTrace :: "event list" where
  "repeatedTrace =
     [ToggleHighlightMode,
      MouseUp exampleEnv exampleSelection (Some exampleContainer),
      MouseUp exampleEnv exampleSelection (Some exampleContainer)]"


text \<open>Three steps of zooming out, which end at scale 0.5; highlight mode on.\<close>

definition zoomedTrace :: "event list" where
  "zoomedTrace = [ZoomOut, ZoomOut, ZoomOut, ToggleHighlightMode]"

text \<open>A document of two pages, one highlight on each page.\<close>

definition twoPageTrace :: "event list" where
  "twoPageTrace =
     [FileChange (Some exampleFile), ReaderLoad (file_content exampleFile),
      DocumentLoadSuccess 2, ToggleHighlightMode,
      MouseUp exampleEnv exampleSelection (Some exampleContainer),
      NextPage,
      MouseUp laterEnv otherSelection (Some exampleContainer)]"

text \<open>A document of five pages and a highlight on its page 5.\<close>

definition fivePageTrace :: "event list" where
  "fivePageTrace =
     [FileChange (Some exampleFile), ReaderLoad (file_content exampleFile),
      DocumentLoadSuccess 5, NextPage, NextPage, NextPage, NextPage, ToggleHighlightMode,
      MouseUp exampleEnv exampleSelection (Some exampleContainer)]"

text \<open>
  After that session a document of two pages is loaded and the sidebar entry of the
  highlight is clicked.
\<close>

definition staleTrace :: "event list" where
  "staleTrace =
     fivePageTrace @
     [FileChange (Some exampleFile), ReaderLoad (file_content exampleFile),
      DocumentLoadSuccess 2, SidebarClick 0]"

section \<open>Properties\<close>

subsection \<open>Rounding to doubles\<close>

lemma roundHalfEven_of_int: "roundHalfEven (of_int n) = n"
  by (simp add: roundHalfEven_def)

lemma roundHalfEven_cases:
  "roundHalfEven x = \<lfloor>x\<rfloor> \<and> x - of_int \<lfloor>x\<rfloor> \<le> 1 / 2
   \<or> roundHalfEven x = \<lfloor>x\<rfloor> + 1 \<and> 1 / 2 \<le> x - of_int \<lfloor>x\<rfloor>"
  by (auto simp: roundHalfEven_def Let_def)

lemma roundHalfEven_ge: "of_int n \<le> x \<Longrightarrow> n \<le> roundHalfEven x"
proof -
  assume "of_int n \<le> x"
  then have "n \<le> \<lfloor>x\<rfloor>" by (simp add: le_floor_iff)
  with roundHalfEven_cases [of x] show ?thesis by auto
qed

lemma roundHalfEven_le: "x \<le> of_int n \<Longrightarrow> roundHalfEven x \<le> n"
proof -
  assume le: "x \<le> of_int n"
  then have floor_le: "\<lfloor>x\<rfloor> \<le> n" by (simp add: floor_le_iff)
  from roundHalfEven_cases [of x] show ?thesis
  proof (elim disjE conjE)
    assume "roundHalfEven x = \<lfloor>x\<rfloor>"
    with floor_le show ?thesis by simp
  next
    assume up: "roundHalfEven x = \<lfloor>x\<rfloor> + 1" and half: "1 / 2 \<le> x - of_int \<lfloor>x\<rfloor>"
    from half le have "real_of_int \<lfloor>x\<rfloor> < real_of_int n" by linarith
    then have "\<lfloor>x\<rfloor> < n" by simp
    with up show ?thesis by simp
  qed
qed

lemma roundHalfEven_error: "\<bar>of_int (roundHalfEven x) - x\<bar> \<le> 1 / 2"
proof -
  have "of_int \<lfloor>x\<rfloor> \<le> x" and "x < of_int \<lfloor>x\<rfloor> + 1" by linarith+
  with roundHalfEven_cases [of x] show ?thesis by auto
qed

lemma roundHalfEven_mono: "x \<le> y \<Longrightarrow> roundHalfEven x \<le> roundHalfEven y"
proof -
  assume le: "x \<le> y"
  then have "\<lfloor>x\<rfloor> \<le> \<lfloor>y\<rfloor>" by (rule floor_mono)
  then consider "\<lfloor>x\<rfloor> = \<lfloor>y\<rfloor>" | "\<lfloor>x\<rfloor> + 1 \<le> \<lfloor>y\<rfloor>" by linarith
  then show ?thesis
  proof cases
    case 1
    with le show ?thesis
      by (auto simp: roundHalfEven_def Let_def)
  next
    case 2
    have "roundHalfEven x \<le> \<lfloor>x\<rfloor> + 1"
      using roundHalfEven_cases [of x] by auto
    moreover have "\<lfloor>y\<rfloor> \<le> roundHalfEven y"
      using roundHalfEven_cases [of y] by auto
    ultimately show ?thesis using 2 by linarith
  qed
qed

text \<open>\<open>binade x\<close> is the exponent of the power of two at or below \<open>\<bar>x\<bar>\<close>.\<close>

lemma binade_bounds:
  assumes "x \<noteq> 0"
  shows "2 powi binade x \<le> \<bar>x\<bar> \<and> \<bar>x\<bar> < 2 powi (binade x + 1)"
proof (cases "1 \<le> \<bar>x\<bar>")
  case True
  define n where "n = \<lfloor>\<bar>x\<bar>\<rfloor>"
  from True have n: "1 \<le> n" by (simp add: n_def le_floor_iff)
  then have b: "1 \<le> bitlen n" by (simp add: bitlen_alt_def)
  from n bitlen_bounds [of n]
  have lo: "2 ^ nat (bitlen n - 1) \<le> n" and hi: "n < 2 ^ nat (bitlen n)" by simp_all
  have e: "binade x = bitlen n - 1" using True by (simp add: binade_def n_def)
  have "(2::real) powi (bitlen n - 1) = real_of_int (2 ^ nat (bitlen n - 1))"
    using b by (simp add: power_int_def)
  also have "\<dots> \<le> real_of_int n" using lo by (simp only: of_int_le_iff)
  also have "\<dots> \<le> \<bar>x\<bar>" by (simp add: n_def)
  finally have low: "2 powi binade x \<le> \<bar>x\<bar>" by (simp add: e)
  have "\<bar>x\<bar> < real_of_int (n + 1)" by (simp add: n_def)
  also have "\<dots> \<le> real_of_int (2 ^ nat (bitlen n))"
  proof -
    from hi have "n + 1 \<le> 2 ^ nat (bitlen n)" by simp
    then show ?thesis by (simp only: of_int_le_iff)
  qed
  also have "\<dots> = 2 powi (bitlen n)" using b by (simp add: power_int_def)
  finally have "\<bar>x\<bar> < 2 powi (binade x + 1)" by (simp add: e)
  with low show ?thesis ..
next
  case False
  with assms have a: "0 < \<bar>x\<bar>" "\<bar>x\<bar> < 1" by simp_all
  define z where "z = 1 / \<bar>x\<bar>"
  define m where "m = \<lceil>z\<rceil> - 1"
  from a have z: "1 < z" by (simp add: z_def)
  then have m: "1 \<le> m" by (simp add: m_def less_ceiling_iff)
  have mz: "real_of_int m < z" "z \<le> real_of_int m + 1" by (simp_all add: m_def) linarith+
  from m have b: "1 \<le> bitlen m" by (simp add: bitlen_alt_def)
  from m bitlen_bounds [of m]
  have lo: "2 ^ nat (bitlen m - 1) \<le> m" and hi: "m < 2 ^ nat (bitlen m)" by simp_all
  have e: "binade x = - bitlen m" using False by (simp add: binade_def m_def z_def)
  have "z \<le> real_of_int (m + 1)" using mz by simp
  also have "\<dots> \<le> real_of_int (2 ^ nat (bitlen m))"
  proof -
    from hi have "m + 1 \<le> 2 ^ nat (bitlen m)" by simp
    then show ?thesis by (simp only: of_int_le_iff)
  qed
  finally have "z \<le> 2 ^ nat (bitlen m)" by simp
  then have "1 / 2 ^ nat (bitlen m) \<le> \<bar>x\<bar>"
    using a by (simp add: z_def field_simps)
  moreover have "(2::real) powi (- bitlen m) = 1 / 2 ^ nat (bitlen m)"
    using b by (simp add: power_int_def field_simps)
  ultimately have low: "2 powi binade x \<le> \<bar>x\<bar>" by (simp add: e)
  have "real_of_int (2 ^ nat (bitlen m - 1)) \<le> real_of_int m"
    using lo by (simp only: of_int_le_iff)
  then have "(2::real) ^ nat (bitlen m - 1) \<le> real_of_int m" by simp
  with mz have "2 ^ nat (bitlen m - 1) < z" by linarith
  then have "\<bar>x\<bar> < 1 / 2 ^ nat (bitlen m - 1)"
    using a by (simp add: z_def field_simps)
  moreover have "(2::real) powi (- bitlen m + 1) = 1 / 2 ^ nat (bitlen m - 1)"
  proof (cases "bitlen m = 1")
    case True
    then show ?thesis by simp
  next
    case False
    with b have "- bitlen m + 1 < 0" by simp
    then show ?thesis by (simp add: power_int_def field_simps nat_diff_distrib)
  qed
  ultimately have "\<bar>x\<bar> < 2 powi (binade x + 1)" by (simp add: e)
  with low show ?thesis ..
qed

lemma binade_less:
  assumes "x \<noteq> 0" and "\<bar>x\<bar> < 2 powi k"
  shows "binade x < k"
proof (rule ccontr)
  assume "\<not> binade x < k"
  then have "(2::real) powi k \<le> 2 powi binade x"
    by (intro power_int_increasing) simp_all
  with binade_bounds [OF assms(1)] assms(2) show False by linarith
qed

lemma binade_ge:
  assumes "2 powi k \<le> \<bar>x\<bar>"
  shows "k \<le> binade x"
proof (rule ccontr)
  assume "\<not> k \<le> binade x"
  then have "(2::real) powi (binade x + 1) \<le> 2 powi k"
    by (intro power_int_increasing) simp_all
  moreover from assms have "x \<noteq> 0"
    by (metis abs_zero not_le zero_less_numeral zero_less_power_int)
  ultimately show False using binade_bounds [of x] assms by linarith
qed

lemma binade_eqI:
  assumes "2 powi e \<le> \<bar>x\<bar>" and "\<bar>x\<bar> < 2 powi (e + 1)"
  shows "binade x = e"
proof -
  from assms(1) have nz: "x \<noteq> 0"
    by (metis abs_zero not_le zero_less_numeral zero_less_power_int)
  from assms(1) have "e \<le> binade x" by (rule binade_ge)
  moreover from nz assms(2) have "binade x < e + 1" by (rule binade_less)
  ultimately show ?thesis by simp
qed

lemma binade_mono:
  assumes "0 < x" and "x \<le> y"
  shows "binade x \<le> binade y"
proof -
  from assms binade_bounds [of x] have "2 powi binade x \<le> \<bar>y\<bar>" by simp
  then show ?thesis by (rule binade_ge)
qed

text \<open>The rounding of a number whose binade is known.\<close>

lemma fl_eval:
  assumes "2 powi e \<le> \<bar>x\<bar>" and "\<bar>x\<bar> < 2 powi (e + 1)" and "- 1022 \<le> e"
  shows "fl x = of_int (roundHalfEven (x / 2 powi (e - 52))) * 2 powi (e - 52)"
  using binade_eqI [OF assms(1,2)] assms(3) by (simp add: fl_def Let_def max_def)

lemma fl_zero: "fl 0 = 0"
  by (simp add: fl_def roundHalfEven_def)

text \<open>A number with at most 53 significant bits is a double and rounds to itself.\<close>

lemma fl_exact:
  assumes "\<bar>m\<bar> < 2 ^ 53" and "- 1074 \<le> k"
  shows "fl (of_int m * 2 powi k) = of_int m * 2 powi k"
proof (cases "m = 0")
  case True
  then show ?thesis by (simp add: fl_zero)
next
  case False
  define x where "x = real_of_int m * 2 powi k"
  define q where "q = max (binade x) (- 1022) - 52"
  from False have nz: "x \<noteq> 0" by (simp add: x_def)
  have "\<bar>x\<bar> = real_of_int \<bar>m\<bar> * 2 powi k"
    by (simp add: x_def abs_mult)
  also have "\<dots> < real_of_int (2 ^ 53) * 2 powi k"
    using assms(1)
    by (intro mult_strict_right_mono)
      (simp_all only: of_int_less_iff zero_less_power_int zero_less_numeral)
  also have "\<dots> = 2 powi (53 + k)"
    by (simp add: power_int_add)
  finally have "binade x < 53 + k" by (rule binade_less [OF nz])
  with assms(2) have qk: "q \<le> k" by (simp add: q_def)
  have "x / 2 powi q = real_of_int m * 2 powi (k - q)"
    by (simp add: x_def power_int_diff)
  also have "\<dots> = real_of_int (m * 2 ^ nat (k - q))"
    using qk by (simp add: power_int_def)
  finally have "roundHalfEven (x / 2 powi q) = m * 2 ^ nat (k - q)"
    by (simp only: roundHalfEven_of_int)
  then have "fl x = real_of_int (m * 2 ^ nat (k - q)) * 2 powi q"
    by (simp add: fl_def Let_def q_def)
  also have "\<dots> = real_of_int m * (2 powi (k - q) * 2 powi q)"
    using qk by (simp add: power_int_def)
  also have "\<dots> = x"
    by (simp add: x_def flip: power_int_add)
  finally show ?thesis by (simp add: x_def)
qed

lemma fl_of_int: "\<bar>n\<bar> < 2 ^ 53 \<Longrightarrow> fl (of_int n) = of_int n"
  using fl_exact [of n 0] by simp

lemma fl_lower:
  assumes "2 powi k \<le> x" and "- 1022 \<le> k"
  shows "2 powi k \<le> fl x"
proof -
  have pos: "0 < x" using assms(1) zero_less_power_int [of "2::real" k] by linarith
  define e where "e = binade x"
  have ke: "k \<le> e" unfolding e_def using assms(1) pos by (intro binade_ge) simp
  with assms(2) have q: "max e (- 1022) - 52 = e - 52" by simp
  from pos binade_bounds [of x] have "2 powi e \<le> x" by (simp add: e_def)
  then have "2 powi e / 2 powi (e - 52) \<le> x / 2 powi (e - 52)"
    by (simp add: divide_right_mono)
  moreover have "(2::real) powi e / 2 powi (e - 52) = real_of_int (2 ^ 52)"
    by (simp add: power_int_diff)
  ultimately have "2 ^ 52 \<le> roundHalfEven (x / 2 powi (e - 52))"
    by (intro roundHalfEven_ge) simp
  then have "real_of_int (2 ^ 52) \<le> real_of_int (roundHalfEven (x / 2 powi (e - 52)))"
    by (simp only: of_int_le_iff)
  then have "real_of_int (2 ^ 52) * 2 powi (e - 52) \<le> fl x"
    unfolding fl_def Let_def e_def [symmetric] q
    by (intro mult_right_mono) simp_all
  moreover have "real_of_int (2 ^ 52) * 2 powi (e - 52) = 2 powi e"
    by (simp add: power_int_diff)
  moreover have "(2::real) powi k \<le> 2 powi e"
    using ke by (intro power_int_increasing) simp_all
  ultimately show ?thesis by linarith
qed

lemma fl_nonneg: "0 \<le> x \<Longrightarrow> 0 \<le> fl x"
proof -
  assume "0 \<le> x"
  then have "real_of_int 0 \<le> x / 2 powi (max (binade x) (- 1022) - 52)" by simp
  then have "0 \<le> roundHalfEven (x / 2 powi (max (binade x) (- 1022) - 52))"
    by (rule roundHalfEven_ge)
  then show ?thesis by (simp add: fl_def Let_def)
qed

text \<open>Rounding keeps the order of positive numbers.\<close>

lemma fl_mono_pos:
  assumes "0 < x" and "x \<le> y"
  shows "fl x \<le> fl y"
proof -
  define qx where "qx = max (binade x) (- 1022) - 52"
  define qy where "qy = max (binade y) (- 1022) - 52"
  have exy: "binade x \<le> binade y" using assms by (rule binade_mono)
  then have "qx \<le> qy" by (simp add: qx_def qy_def)
  then consider "qx = qy" | "qx < qy" by linarith
  then show ?thesis
  proof cases
    case 1
    have "x / 2 powi qy \<le> y / 2 powi qy"
      using assms(2) by (simp add: divide_right_mono)
    then have "roundHalfEven (x / 2 powi qy) \<le> roundHalfEven (y / 2 powi qy)"
      by (rule roundHalfEven_mono)
    then have "real_of_int (roundHalfEven (x / 2 powi qy)) * 2 powi qy
        \<le> real_of_int (roundHalfEven (y / 2 powi qy)) * 2 powi qy"
      by (intro mult_right_mono) simp_all
    with 1 show ?thesis by (simp add: fl_def Let_def qx_def qy_def)
  next
    case 2
    with exy have ey: "- 1022 \<le> binade y" and qy: "qy = binade y - 52"
      by (simp_all add: qx_def qy_def max_def split: if_splits)
    have "y \<noteq> 0" using assms by simp
    from binade_bounds [OF this] assms have "2 powi binade y \<le> y" by simp
    then have low: "2 powi binade y \<le> fl y" using ey by (rule fl_lower)
    have "x \<noteq> 0" using assms by simp
    from binade_bounds [OF this] assms have "x < 2 powi (binade x + 1)" by simp
    also have "\<dots> \<le> 2 powi (qx + 53)"
      by (intro power_int_increasing) (simp_all add: qx_def)
    finally have "x / 2 powi qx \<le> 2 powi (qx + 53) / 2 powi qx"
      by (simp add: divide_right_mono)
    also have "\<dots> = real_of_int (2 ^ 53)"
      by (simp add: power_int_add)
    finally have "roundHalfEven (x / 2 powi qx) \<le> 2 ^ 53"
      by (rule roundHalfEven_le)
    then have "real_of_int (roundHalfEven (x / 2 powi qx)) \<le> real_of_int (2 ^ 53)"
      by (simp only: of_int_le_iff)
    then have "real_of_int (roundHalfEven (x / 2 powi qx)) * 2 powi qx
        \<le> real_of_int (2 ^ 53) * 2 powi qx"
      by (intro mult_right_mono) simp_all
    also have "\<dots> = 2 powi (qx + 53)"
      by (simp add: power_int_add)
    also have "\<dots> \<le> 2 powi binade y"
      using 2 qy by (intro power_int_increasing) simp_all
    finally have "fl x \<le> 2 powi binade y"
      by (simp add: fl_def Let_def qx_def)
    with low show ?thesis by linarith
  qed
qed

text \<open>The rounding error is at most half the spacing of the doubles of the binade.\<close>

lemma fl_error:
  assumes "- 1022 \<le> binade x"
  shows "\<bar>fl x - x\<bar> \<le> 2 powi (binade x - 53)"
proof -
  define u :: real where "u = 2 powi (binade x - 52)"
  have u: "0 < u" by (simp add: u_def)
  have "fl x = real_of_int (roundHalfEven (x / u)) * u"
    using assms by (simp add: fl_def Let_def u_def max_def)
  then have "fl x - x = (real_of_int (roundHalfEven (x / u)) - x / u) * u"
    using u by (simp add: field_simps)
  then have "\<bar>fl x - x\<bar> = \<bar>real_of_int (roundHalfEven (x / u)) - x / u\<bar> * u"
    using u by (simp add: abs_mult)
  also have "\<dots> \<le> (1 / 2) * u"
    using u roundHalfEven_error [of "x / u"] by (intro mult_right_mono) simp_all
  also have "\<dots> = 2 powi (binade x - 53)"
    by (simp add: u_def power_int_diff)
  finally show ?thesis .
qed

text \<open>The literal \<open>0.2\<close>, and the integers of the examples.\<close>

lemma fl_fifth: "fl (1 / 5) = 3602879701896397 / 18014398509481984"
  by (simp add: fl_eval [where e = "- 3"] roundHalfEven_def)

lemma fl_numeral: "\<bar>numeral n :: int\<bar> < 2 ^ 53 \<Longrightarrow> fl (numeral n) = numeral n"
  using fl_of_int [of "numeral n"] by simp

subsection \<open>Zoom\<close>

lemma fl_fifth_bounds:
  "0 < fl 0.2" "fl 0.2 \<le> 0.21" "\<bar>fl 0.2 - 0.2\<bar> \<le> 2 powi (- 56)"
  by (simp_all add: fl_fifth)

lemma zoomIn_range:
  assumes "0.5 \<le> scale s" and "scale s \<le> 3.0"
  shows "0.5 \<le> scale (zoomIn s) \<and> scale (zoomIn s) \<le> 3.0"
proof -
  have "2 powi (- 1) \<le> scale s + fl 0.2"
    using assms(1) fl_fifth_bounds(1) by simp
  then have "2 powi (- 1) \<le> fl (scale s + fl 0.2)"
    by (rule fl_lower) simp
  then show ?thesis by (simp add: zoomIn_def)
qed

lemma zoomOut_range:
  assumes "0.5 \<le> scale s" and "scale s \<le> 3.0"
  shows "0.5 \<le> scale (zoomOut s) \<and> scale (zoomOut s) \<le> 3.0"
proof -
  have "0 < scale s - fl 0.2" and "scale s - fl 0.2 \<le> 3"
    using assms fl_fifth_bounds(1,2) by simp_all
  then have "fl (scale s - fl 0.2) \<le> fl 3"
    by (rule fl_mono_pos)
  then have "fl (scale s - fl 0.2) \<le> 3"
    by (simp add: fl_numeral)
  then show ?thesis by (simp add: zoomOut_def)
qed

lemma zoomIn_repeated:
  "0.5 \<le> scale s \<Longrightarrow> scale s \<le> 3.0 \<Longrightarrow>
   0.5 \<le> scale ((zoomIn ^^ n) s) \<and> scale ((zoomIn ^^ n) s) \<le> 3.0"
proof (induction n)
  case 0
  then show ?case by simp
next
  case (Suc n)
  then show ?case using zoomIn_range [of "(zoomIn ^^ n) s"] by simp
qed

lemma zoomOut_repeated:
  "0.5 \<le> scale s \<Longrightarrow> scale s \<le> 3.0 \<Longrightarrow>
   0.5 \<le> scale ((zoomOut ^^ n) s) \<and> scale ((zoomOut ^^ n) s) \<le> 3.0"
proof (induction n)
  case 0
  then show ?case by simp
next
  case (Suc n)
  then show ?case using zoomOut_range [of "(zoomOut ^^ n) s"] by simp
qed

text \<open>Only the two zoom handlers set the scale.\<close>

lemma step_scale:
  "scale (step s ev) = scale s \<or> ev = ZoomIn \<or> ev = ZoomOut"
  by (cases ev)
    (simp_all add: onFileChange_def readerOnLoad_def onDocumentLoadSuccess_def
      previousPage_def nextPage_def changePage_def toggleHighlightMode_def
      setHighlightColor_def navigateToHighlight_def removeHighlight_def
      handleTextSelect_def Let_def split: option.splits)

lemma step_scale_range:
  assumes "0.5 \<le> scale s" and "scale s \<le> 3.0"
  shows "0.5 \<le> scale (step s ev) \<and> scale (step s ev) \<le> 3.0"
  using step_scale [of s ev] zoomIn_range [OF assms] zoomOut_range [OF assms] assms
  by auto

lemma run_scale_range:
  "0.5 \<le> scale s \<Longrightarrow> scale s \<le> 3.0 \<Longrightarrow>
   0.5 \<le> scale (run s evs) \<and> scale (run s evs) \<le> 3.0"
  unfolding run_def
proof (induction evs arbitrary: s)
  case Nil
  then show ?case by simp
next
  case (Cons ev evs)
  from step_scale_range [OF Cons.prems, of ev] Cons.IH [of "step s ev"]
  show ?case by simp
qed

text \<open>
  The double sum and the double difference are within \<open>2 powi (- 51)\<close> of the exact
  sum and difference with one fifth.
\<close>

lemma zoom_sum_error:
  assumes "0.5 \<le> x" and "x \<le> 3.0"
  shows "\<bar>fl (x + fl 0.2) - (x + 0.2)\<bar> \<le> 2 powi (- 51)"
proof -
  define y where "y = x + fl 0.2"
  have y: "2 powi (- 1) \<le> \<bar>y\<bar>" "\<bar>y\<bar> < 2 powi 2" "y \<noteq> 0"
    using assms fl_fifth_bounds(1,2) by (simp_all add: y_def)
  from y(1) have lo: "- 1 \<le> binade y" by (rule binade_ge)
  from y(3,2) have hi: "binade y < 2" by (rule binade_less)
  from lo have "\<bar>fl y - y\<bar> \<le> 2 powi (binade y - 53)"
    by (intro fl_error) simp
  also have "\<dots> \<le> 2 powi (- 52)"
    using hi by (intro power_int_increasing) simp_all
  finally have "\<bar>fl y - y\<bar> \<le> 2 powi (- 52)" .
  moreover have "\<bar>fl y - (x + 0.2)\<bar> \<le> \<bar>fl y - y\<bar> + \<bar>fl 0.2 - 0.2\<bar>"
    by (simp add: y_def)
  moreover have "(2::real) powi (- 52) + 2 powi (- 56) \<le> 2 powi (- 51)"
    by simp
  ultimately show ?thesis
    using fl_fifth_bounds(3) unfolding y_def by linarith
qed

lemma zoom_difference_error:
  assumes "0.5 \<le> x" and "x \<le> 3.0"
  shows "\<bar>fl (x - fl 0.2) - (x - 0.2)\<bar> \<le> 2 powi (- 51)"
proof -
  define y where "y = x - fl 0.2"
  have y: "2 powi (- 2) \<le> \<bar>y\<bar>" "\<bar>y\<bar> < 2 powi 2" "y \<noteq> 0"
    using assms fl_fifth_bounds(1,2) by (simp_all add: y_def)
  from y(1) have lo: "- 2 \<le> binade y" by (rule binade_ge)
  from y(3,2) have hi: "binade y < 2" by (rule binade_less)
  from lo have "\<bar>fl y - y\<bar> \<le> 2 powi (binade y - 53)"
    by (intro fl_error) simp
  also have "\<dots> \<le> 2 powi (- 52)"
    using hi by (intro power_int_increasing) simp_all
  finally have "\<bar>fl y - y\<bar> \<le> 2 powi (- 52)" .
  moreover have "\<bar>fl y - (x - 0.2)\<bar> \<le> \<bar>fl y - y\<bar> + \<bar>fl 0.2 - 0.2\<bar>"
    by (simp add: y_def)
  moreover have "(2::real) powi (- 52) + 2 powi (- 56) \<le> 2 powi (- 51)"
    by simp
  ultimately show ?thesis
    using fl_fifth_bounds(3) unfolding y_def by linarith
qed

text \<open>The first steps from scale 1, as doubles: 1.2, 1.4 and 1.5999999999999999.\<close>

lemma zoomIn_once: "scale (zoomIn initial) = 5404319552844595 / 4503599627370496"
  by (simp add: zoomIn_def initial_def fl_fifth fl_eval [where e = 0] roundHalfEven_def)

lemma zoomIn_twice:
  "scale ((zoomIn ^^ 2) initial) = 3152519739159347 / 2251799813685248"
proof -
  have "(zoomIn ^^ 2) initial = zoomIn (zoomIn initial)"
    by (simp add: numeral_2_eq_2)
  then show ?thesis
    using zoomIn_once
    by (simp add: zoomIn_def [of "zoomIn initial"] fl_fifth fl_eval [where e = 0]
        roundHalfEven_def)
qed

lemma zoomIn_thrice:
  "scale ((zoomIn ^^ 3) initial) = 7205759403792793 / 4503599627370496"
proof -
  have "(zoomIn ^^ 3) initial = zoomIn ((zoomIn ^^ 2) initial)"
    by (simp add: numeral_3_eq_3 numeral_2_eq_2)
  then show ?thesis
    using zoomIn_twice
    by (simp add: zoomIn_def [of "(zoomIn ^^ 2) initial"] fl_fifth fl_eval [where e = 0]
        roundHalfEven_def)
qed

text \<open>Zooming out from scale 1: 0.8, then 0.6000000000000001, then the bound 0.5.\<close>

lemma zoomOut_once: "scale (zoomOut initial) = 3602879701896397 / 4503599627370496"
  by (simp add: zoomOut_def initial_def fl_fifth fl_eval [where e = "- 1"] roundHalfEven_def)

lemma zoomOut_twice:
  "scale (zoomOut (zoomOut initial)) = 1351079888211149 / 2251799813685248"
proof -
  have "scale (zoomOut (zoomOut initial)) = max (fl (scale (zoomOut initial) - fl 0.2)) 0.5"
    by (simp add: zoomOut_def)
  also have "\<dots> = max (fl (3602879701896397 / 4503599627370496 - fl 0.2)) 0.5"
    by (simp only: zoomOut_once)
  also have "\<dots> = 1351079888211149 / 2251799813685248"
    by (simp add: fl_fifth fl_eval [where e = "- 1"] roundHalfEven_def)
  finally show ?thesis .
qed

lemma zoomOut_thrice: "scale (zoomOut (zoomOut (zoomOut initial))) = 1 / 2"
proof -
  have "scale (zoomOut (zoomOut (zoomOut initial)))
      = max (fl (scale (zoomOut (zoomOut initial)) - fl 0.2)) 0.5"
    by (simp add: zoomOut_def)
  also have "\<dots> = max (fl (1351079888211149 / 2251799813685248 - fl 0.2)) 0.5"
    by (simp only: zoomOut_twice)
  also have "\<dots> = 1 / 2"
    by (simp add: fl_fifth fl_eval [where e = "- 2"] roundHalfEven_def)
  finally show ?thesis .
qed

text \<open>
  Claim C8, as the code has it. From every scale in \<open>[0.5, 3.0]\<close>, \<open>zoomIn\<close> gives the
  double sum of the scale and the double 0.2, capped at 3.0, and \<open>zoomOut\<close> the double
  difference, floored at 0.5. A step that is not clamped changes the scale by 0.2 up to
  rounding: the new scale differs from the exact sum or difference by at most
  \<open>2 powi (- 51)\<close>. No number of repeated \<open>zoomIn\<close> steps gives a scale above 3.0, no
  number of repeated \<open>zoomOut\<close> steps a scale below 0.5, and after every sequence of
  events the scale is still within \<open>[0.5, 3.0]\<close>.
\<close>

theorem zoom_steps_clamped:
  assumes "0.5 \<le> scale s" and "scale s \<le> 3.0"
  shows "scale (zoomIn s) = min (fl (scale s + fl 0.2)) 3.0
       \<and> scale (zoomOut s) = max (fl (scale s - fl 0.2)) 0.5
       \<and> (fl (scale s + fl 0.2) \<le> 3.0 \<longrightarrow>
            \<bar>scale (zoomIn s) - (scale s + 0.2)\<bar> \<le> 2 powi (- 51))
       \<and> (0.5 \<le> fl (scale s - fl 0.2) \<longrightarrow>
            \<bar>scale (zoomOut s) - (scale s - 0.2)\<bar> \<le> 2 powi (- 51))
       \<and> scale ((zoomIn ^^ n) s) \<le> 3.0 \<and> 0.5 \<le> scale ((zoomIn ^^ n) s)
       \<and> 0.5 \<le> scale ((zoomOut ^^ m) s) \<and> scale ((zoomOut ^^ m) s) \<le> 3.0
       \<and> 0.5 \<le> scale (run s evs) \<and> scale (run s evs) \<le> 3.0"
proof -
  have "fl (scale s + fl 0.2) \<le> 3.0 \<longrightarrow>
      \<bar>scale (zoomIn s) - (scale s + 0.2)\<bar> \<le> 2 powi (- 51)"
    using zoom_sum_error [OF assms] by (simp add: zoomIn_def)
  moreover have "0.5 \<le> fl (scale s - fl 0.2) \<longrightarrow>
      \<bar>scale (zoomOut s) - (scale s - 0.2)\<bar> \<le> 2 powi (- 51)"
    using zoom_difference_error [OF assms] by (simp add: zoomOut_def)
  moreover have "scale (zoomIn s) = min (fl (scale s + fl 0.2)) 3.0"
    and "scale (zoomOut s) = max (fl (scale s - fl 0.2)) 0.5"
    by (simp_all add: zoomIn_def zoomOut_def)
  ultimately show ?thesis
    using zoomIn_repeated [OF assms, of n] zoomOut_repeated [OF assms, of m]
      run_scale_range [OF assms, of evs]
    by (intro conjI) simp_all
qed

theorem zoom_steps_clamped_witness:
  "0.5 \<le> scale initial \<and> scale initial \<le> 3.0
   \<and> scale (zoomIn initial) = 5404319552844595 / 4503599627370496
   \<and> scale (zoomOut initial) = 3602879701896397 / 4503599627370496
   \<and> \<bar>scale (zoomIn initial) - 1.2\<bar> \<le> 2 powi (- 51)
   \<and> \<bar>scale (zoomOut initial) - 0.8\<bar> \<le> 2 powi (- 51)
   \<and> scale ((zoomIn ^^ 12) initial) \<le> 3.0
   \<and> 0.5 \<le> scale ((zoomOut ^^ 5) initial)
   \<and> 0.5 \<le> scale (run initial [ZoomOut, ZoomOut, ZoomIn, ZoomOut, ZoomOut])"
proof -
  have range: "0.5 \<le> scale initial" "scale initial \<le> 3.0"
    by (simp_all add: initial_def)
  note whole = zoom_steps_clamped [OF range, of 12 5 "[ZoomOut, ZoomOut, ZoomIn, ZoomOut, ZoomOut]"]
  have "\<bar>scale (zoomIn initial) - 1.2\<bar> \<le> 2 powi (- 51)"
    and "\<bar>scale (zoomOut initial) - 0.8\<bar> \<le> 2 powi (- 51)"
    by (simp_all add: zoomIn_once zoomOut_once)
  with range whole show ?thesis
    by (simp add: zoomIn_once zoomOut_once)
qed

text \<open>
  From scale 1, two steps of zooming in give the double 1.4. The third step gives
  1.5999999999999999, far from the bound: it is not the double 1.6, and its change of the
  scale is neither one fifth nor the double 0.2.
\<close>

theorem zoom_step_counterexample:
  "scale ((zoomIn ^^ 2) initial) = 3152519739159347 / 2251799813685248
   \<and> scale ((zoomIn ^^ 3) initial) = 7205759403792793 / 4503599627370496
   \<and> scale ((zoomIn ^^ 3) initial) < 3.0
   \<and> scale ((zoomIn ^^ 3) initial) \<noteq> scale ((zoomIn ^^ 2) initial) + 0.2
   \<and> scale ((zoomIn ^^ 3) initial) \<noteq> fl 1.6
   \<and> scale ((zoomIn ^^ 3) initial) - scale ((zoomIn ^^ 2) initial) \<noteq> fl 0.2"
proof -
  have "fl 1.6 = 3602879701896397 / 2251799813685248"
    by (simp add: fl_eval [where e = 0] roundHalfEven_def)
  then show ?thesis
    by (simp add: zoomIn_twice zoomIn_thrice fl_fifth)
qed

subsection \<open>Evaluation of the handlers on the example sessions\<close>

lemma freshId_examples:
  "freshId exampleEnv = 3400000000001 / 2"
  "freshId nearbyEnv = 3400000000001 / 2"
  "freshId laterEnv = 6800000016001 / 4"
  "freshId thirdEnv = 6800000036003 / 4"
  by (simp_all add: freshId_def exampleEnv_def nearbyEnv_def laterEnv_def thirdEnv_def
      fl_eval [where e = 40] roundHalfEven_def)

lemma trim_examples:
  "trim spacedHello = hello" "trim world = world" "trim blankText = []"
  "hello \<noteq> []" "world \<noteq> []"
  by (simp_all add: trim_def isWhitespace_def spacedHello_def hello_def world_def
      blankText_def)

lemmas handler_defs =
  onFileChange_def readerOnLoad_def onDocumentLoadSuccess_def
  previousPage_def nextPage_def changePage_def
  toggleHighlightMode_def setHighlightColor_def navigateToHighlight_def
  handleTextSelect_def removeHighlight_def pagerShown_def capturePosition_def
  freshId_examples trim_examples fl_numeral Let_def

lemmas example_defs =
  initial_def exampleFile_def exampleContainer_def exampleSelection_def
  otherSelection_def zoomedSelection_def examplePosition_def originContainer_def

lemma run_captureTrace:
  "run initial captureTrace =
     initial\<lparr>isSelecting := True, selectedText := hello,
       highlights :=
         [\<lparr>hl_ref = 0, hl_id = 1700000000000.5, hl_text = hello, hl_pageNumber = 1,
           hl_color = ''#FFFF00'',
           hl_position = \<lparr>rect_x = 100, rect_y = 200, rect_width = 40, rect_height = 12\<rparr>\<rparr>],
       objectsMade := 1\<rparr>"
  by (simp add: run_def captureTrace_def handler_defs example_defs)

lemma run_zoomedTrace:
  "run initial zoomedTrace = initial\<lparr>scale := 1 / 2, isSelecting := True\<rparr>"
proof -
  have "zoomOut (zoomOut (zoomOut initial))
      = initial\<lparr>scale := scale (zoomOut (zoomOut (zoomOut initial)))\<rparr>"
    by (simp add: zoomOut_def)
  then have "zoomOut (zoomOut (zoomOut initial)) = initial\<lparr>scale := 1 / 2\<rparr>"
    by (simp only: zoomOut_thrice)
  then show ?thesis
    by (simp add: run_def zoomedTrace_def toggleHighlightMode_def initial_def)
qed

lemma run_twoPageTrace:
  "highlights (run initial twoPageTrace) =
     [\<lparr>hl_ref = 0, hl_id = 1700000000000.5, hl_text = hello, hl_pageNumber = 1,
       hl_color = ''#FFFF00'',
       hl_position = \<lparr>rect_x = 100, rect_y = 200, rect_width = 40, rect_height = 12\<rparr>\<rparr>,
      \<lparr>hl_ref = 1, hl_id = 1700000004000.25, hl_text = world, hl_pageNumber = 2,
       hl_color = ''#FFFF00'',
       hl_position = \<lparr>rect_x = 50, rect_y = 300, rect_width = 50, rect_height = 12\<rparr>\<rparr>]"
  by (simp add: run_def twoPageTrace_def handler_defs example_defs)

subsection \<open>Trimming\<close>

lemma whiteSpaceUnits_isWhitespace: "c \<in> set whiteSpaceUnits \<Longrightarrow> isWhitespace c"
  by (auto simp: whiteSpaceUnits_def isWhitespace_def)

lemma dropWhile_all: "list_all P xs \<Longrightarrow> dropWhile P xs = []"
  by (induction xs) simp_all

lemma trim_whitespace_only: "set t \<subseteq> set whiteSpaceUnits \<Longrightarrow> trim t = []"
proof -
  assume "set t \<subseteq> set whiteSpaceUnits"
  then have "list_all isWhitespace t"
    by (auto simp: list_all_iff intro: whiteSpaceUnits_isWhitespace)
  then show ?thesis by (simp add: trim_def dropWhile_all)
qed

lemma dropWhile_head: "xs \<noteq> [] \<Longrightarrow> \<not> P (hd xs) \<Longrightarrow> dropWhile P xs = xs"
  by (cases xs) simp_all

text \<open>
  After white space is dropped at the front and then at the back, what is left, when it
  is not empty, begins with the first and ends with the last character that is not white
  space.
\<close>

lemma dropWhile_twice_ends:
  fixes P :: "'a \<Rightarrow> bool"
  defines "w \<equiv> \<lambda>t. dropWhile P (rev (dropWhile P t))"
  assumes "w t \<noteq> []"
  shows "\<not> P (hd (rev (w t))) \<and> \<not> P (last (rev (w t)))"
proof -
  let ?v = "dropWhile P t"
  have split: "rev ?v = takeWhile P (rev ?v) @ w t"
    by (simp add: w_def)
  then have "?v = rev (w t) @ rev (takeWhile P (rev ?v))"
    by (metis rev_append rev_rev_ident)
  with assms(2) have hd_eq: "hd (rev (w t)) = hd ?v"
    by (metis hd_append2 rev_is_Nil_conv)
  from split assms(2) have "?v \<noteq> []"
    by (metis rev_is_Nil_conv w_def dropWhile.simps(1) rev.simps(1))
  then have "\<not> P (hd ?v)"
    by (rule hd_dropWhile)
  with hd_eq have front: "\<not> P (hd (rev (w t)))" by simp
  from assms(2) have "\<not> P (hd (w t))"
    unfolding w_def by (rule hd_dropWhile)
  moreover from assms(2) have "last (rev (w t)) = hd (w t)"
    by (simp add: last_rev)
  ultimately show ?thesis using front by simp
qed

lemma trim_ends:
  "trim t \<noteq> [] \<Longrightarrow> \<not> isWhitespace (hd (trim t)) \<and> \<not> isWhitespace (last (trim t))"
  unfolding trim_def by (rule dropWhile_twice_ends) simp

lemma trim_idem: "trim (trim t) = trim t"
proof (cases "trim t = []")
  case True
  have "trim [] = []" by (simp add: trim_def)
  with True show ?thesis by simp
next
  case False
  from trim_ends [OF False] False
  have front: "dropWhile isWhitespace (trim t) = trim t"
    by (simp add: dropWhile_head)
  from trim_ends [OF False] False
  have "dropWhile isWhitespace (rev (trim t)) = rev (trim t)"
    by (intro dropWhile_head) (simp_all add: hd_rev)
  with front show ?thesis
    by (simp add: trim_def [of "trim t"])
qed

subsection \<open>Selection capture\<close>

text \<open>A capture either leaves the state as it is or appends one new highlight object.\<close>

lemma handleTextSelect_cases:
  "handleTextSelect e sel c s = s \<or>
   (\<exists>r cr. sel_rect sel = Some r \<and> c = Some cr \<and> isSelecting s
     \<and> trim (sel_toString sel) \<noteq> [] \<and> 5 \<le> rect_width r \<and> 5 \<le> rect_height r
     \<and> handleTextSelect e sel c s =
         s\<lparr>highlights := highlights s @
              [\<lparr>hl_ref = objectsMade s, hl_id = freshId e,
                hl_text = trim (sel_toString sel),
                hl_pageNumber = pageNumber s, hl_color = highlightColor s,
                hl_position = capturePosition r cr\<rparr>],
            selectedText := trim (sel_toString sel),
            objectsMade := Suc (objectsMade s)\<rparr>)"
  by (auto simp: handleTextSelect_def Let_def split: option.splits)

text \<open>Only a capture and a removal touch the list of highlights.\<close>

lemma step_highlights:
  "highlights (step s ev) = highlights s \<and> objectsMade (step s ev) = objectsMade s
   \<or> (\<exists>e sel c. ev = MouseUp e sel c) \<or> (\<exists>i. ev = RemoveHighlight i)"
  by (cases ev)
    (simp_all add: onFileChange_def readerOnLoad_def onDocumentLoadSuccess_def
      previousPage_def nextPage_def changePage_def zoomIn_def zoomOut_def
      toggleHighlightMode_def setHighlightColor_def navigateToHighlight_def
      split: option.splits)

text \<open>
  Claim C9. A capture leaves the whole state, and so the list of highlights, as it is
  when highlight mode is off, when the selected text is empty or consists of white space
  only (any of the white space of the language), when the selection has no range, and
  when the bounding rectangle of the selection is narrower or lower than 5 pixels,
  whatever the selected text is.
\<close>

theorem capture_rejected:
  "(\<not> isSelecting s \<longrightarrow> handleTextSelect e sel c s = s)
   \<and> (set (sel_toString sel) \<subseteq> set whiteSpaceUnits \<longrightarrow> handleTextSelect e sel c s = s)
   \<and> (sel_rangeCount sel = 0 \<longrightarrow> handleTextSelect e sel c s = s)
   \<and> (\<forall>r. sel_rect sel = Some r \<and> (rect_width r < 5 \<or> rect_height r < 5)
          \<longrightarrow> handleTextSelect e sel c s = s)"
  by (auto simp: handleTextSelect_def Let_def trim_whitespace_only split: option.splits)

theorem capture_rejected_witness:
  "handleTextSelect exampleEnv exampleSelection (Some exampleContainer) initial = initial
   \<and> set blankText \<subseteq> set whiteSpaceUnits
   \<and> handleTextSelect exampleEnv (exampleSelection\<lparr>sel_toString := blankText\<rparr>)
        (Some exampleContainer) (toggleHighlightMode initial) = toggleHighlightMode initial
   \<and> handleTextSelect exampleEnv (exampleSelection\<lparr>sel_toString := []\<rparr>)
        (Some exampleContainer) (toggleHighlightMode initial) = toggleHighlightMode initial
   \<and> handleTextSelect exampleEnv (exampleSelection\<lparr>sel_rangeCount := 0\<rparr>)
        (Some exampleContainer) (toggleHighlightMode initial) = toggleHighlightMode initial
   \<and> handleTextSelect exampleEnv
        (exampleSelection\<lparr>sel_rect :=
           Some \<lparr>rect_x = 110, rect_y = 210, rect_width = 40, rect_height = 4\<rparr>\<rparr>)
        (Some exampleContainer) (toggleHighlightMode initial) = toggleHighlightMode initial
   \<and> length (highlights (handleTextSelect exampleEnv exampleSelection
        (Some exampleContainer) (toggleHighlightMode initial))) = 1"
proof -
  have blank: "set blankText \<subseteq> set whiteSpaceUnits"
    by (simp add: blankText_def whiteSpaceUnits_def)
  have stored: "length (highlights (handleTextSelect exampleEnv exampleSelection
      (Some exampleContainer) (toggleHighlightMode initial))) = 1"
    by (simp add: handler_defs example_defs)
  from blank stored
    capture_rejected [of initial exampleEnv exampleSelection "Some exampleContainer"]
    capture_rejected [of "toggleHighlightMode initial" exampleEnv
      "exampleSelection\<lparr>sel_toString := blankText\<rparr>" "Some exampleContainer"]
    capture_rejected [of "toggleHighlightMode initial" exampleEnv
      "exampleSelection\<lparr>sel_toString := []\<rparr>" "Some exampleContainer"]
    capture_rejected [of "toggleHighlightMode initial" exampleEnv
      "exampleSelection\<lparr>sel_rangeCount := 0\<rparr>" "Some exampleContainer"]
    capture_rejected [of "toggleHighlightMode initial" exampleEnv
      "exampleSelection\<lparr>sel_rect :=
           Some \<lparr>rect_x = 110, rect_y = 210, rect_width = 40, rect_height = 4\<rparr>\<rparr>"
      "Some exampleContainer"]
  show ?thesis
    by (simp add: toggleHighlightMode_def example_defs)
qed

subsection \<open>Shape of the stored highlights\<close>

lemma handleTextSelect_wellFormed:
  assumes "list_all wellFormed (highlights s)"
  shows "list_all wellFormed (highlights (handleTextSelect e sel c s))"
proof -
  from handleTextSelect_cases [of e sel c s] show ?thesis
  proof (elim disjE exE conjE)
    assume "handleTextSelect e sel c s = s"
    with assms show ?thesis by simp
  next
    fix r cr
    assume nonempty: "trim (sel_toString sel) \<noteq> []"
      and size: "5 \<le> rect_width r" "5 \<le> rect_height r"
      and stored: "handleTextSelect e sel c s =
         s\<lparr>highlights := highlights s @
              [\<lparr>hl_ref = objectsMade s, hl_id = freshId e,
                hl_text = trim (sel_toString sel),
                hl_pageNumber = pageNumber s, hl_color = highlightColor s,
                hl_position = capturePosition r cr\<rparr>],
            selectedText := trim (sel_toString sel),
            objectsMade := Suc (objectsMade s)\<rparr>"
    from trim_ends [OF nonempty]
    have "hd (trim (sel_toString sel)) \<notin> set whiteSpaceUnits"
      and "last (trim (sel_toString sel)) \<notin> set whiteSpaceUnits"
      using whiteSpaceUnits_isWhitespace by blast+
    with nonempty size assms show ?thesis
      by (simp add: stored wellFormed_def capturePosition_def trim_idem)
  qed
qed

lemma removeHighlight_wellFormed:
  "list_all wellFormed (highlights s) \<Longrightarrow>
   list_all wellFormed (highlights (removeHighlight i s))"
  by (simp add: removeHighlight_def list_all_iff)

lemma step_wellFormed:
  "list_all wellFormed (highlights s) \<Longrightarrow> list_all wellFormed (highlights (step s ev))"
  using step_highlights [of s ev]
  by (auto simp: handleTextSelect_wellFormed removeHighlight_wellFormed)

lemma run_wellFormed:
  "list_all wellFormed (highlights s) \<Longrightarrow> list_all wellFormed (highlights (run s evs))"
  unfolding run_def
  by (induction evs arbitrary: s) (simp_all add: step_wellFormed)

text \<open>
  Claim C10. After every sequence of events from the initial state, every stored highlight
  has \<open>x \<ge> 0\<close>, \<open>y \<ge> 0\<close>, \<open>width \<ge> 5\<close>, \<open>height \<ge> 5\<close> and a text that is not empty,
  has no white space at its ends, and so is not empty after trimming. A capture
  establishes this for the highlight it appends and keeps it for the others; a removal
  keeps it, and leaves a subsequence of the list: the surviving records are the ones that
  were there, in their order.
\<close>

theorem stored_highlights_wellFormed:
  "list_all wellFormed (highlights (run initial evs))
   \<and> (list_all wellFormed (highlights s) \<longrightarrow>
        list_all wellFormed (highlights (handleTextSelect e sel c s)))
   \<and> (list_all wellFormed (highlights s) \<longrightarrow>
        list_all wellFormed (highlights (removeHighlight i s)))
   \<and> subseq (highlights (removeHighlight i s)) (highlights s)"
proof -
  have "list_all wellFormed (highlights initial)"
    by (simp add: initial_def)
  then have "list_all wellFormed (highlights (run initial evs))"
    by (rule run_wellFormed)
  moreover have "subseq (highlights (removeHighlight i s)) (highlights s)"
    by (simp add: removeHighlight_def)
  ultimately show ?thesis
    by (simp add: handleTextSelect_wellFormed removeHighlight_wellFormed)
qed

theorem stored_highlights_wellFormed_witness:
  "list_all wellFormed (highlights (run initial captureTrace))
   \<and> map hl_text (highlights (run initial captureTrace)) = [hello]
   \<and> list_all wellFormed (highlights (handleTextSelect laterEnv otherSelection
        (Some exampleContainer) (run initial captureTrace)))
   \<and> length (highlights (handleTextSelect laterEnv otherSelection
        (Some exampleContainer) (run initial captureTrace))) = 2
   \<and> list_all wellFormed (highlights (removeHighlight 7 (run initial captureTrace)))
   \<and> length (highlights (removeHighlight 7 (run initial captureTrace))) = 1"
  using stored_highlights_wellFormed [of captureTrace "run initial captureTrace"
      laterEnv otherSelection "Some exampleContainer" 7]
  unfolding run_captureTrace
  by (simp add: handler_defs example_defs)

subsection \<open>Highlight ids\<close>








subsection \<open>Stored positions and the zoom\<close>

text \<open>
  The overlay multiplies each of the four fields of a stored position by the scale, as
  doubles.
\<close>

lemma overlayStyle_fields:
  "rect_x (overlayStyle sc p) = fl (rect_x p * sc)
   \<and> rect_y (overlayStyle sc p) = fl (rect_y p * sc)
   \<and> rect_width (overlayStyle sc p) = fl (rect_width p * sc)
   \<and> rect_height (overlayStyle sc p) = fl (rect_height p * sc)"
  by (simp add: overlayStyle_def)

text \<open>The capture does not look at the scale.\<close>

lemma handleTextSelect_highlights_scale:
  "highlights (handleTextSelect e sel c (s\<lparr>scale := sc\<rparr>)) = highlights (handleTextSelect e sel c s)"
  by (simp add: handleTextSelect_def Let_def split: option.splits)

text \<open>
  Claim C1, on the code. Three steps of zooming out bring the scale to 0.5. There the
  words that occupy the page rectangle \<open>(100, 200, 40, 12)\<close> are selected; on the screen
  their rectangle is \<open>(60, 110, 20, 6)\<close> in a container whose origin is \<open>(10, 10)\<close>. The
  capture stores the position \<open>(50, 100, 20, 6)\<close>: the container origin is subtracted,
  nothing is divided by the scale. The overlay of the new highlight, which multiplies
  the stored position by the scale, is then \<open>(25, 50, 10, 3)\<close> and not the rectangle
  \<open>(50, 100, 20, 6)\<close> of the selection within the container.
\<close>

theorem capture_at_half_scale:
  "scale (run initial zoomedTrace) = 0.5
   \<and> map hl_position (highlights (handleTextSelect exampleEnv zoomedSelection
        (Some exampleContainer) (run initial zoomedTrace)))
       = [\<lparr>rect_x = 50, rect_y = 100, rect_width = 20, rect_height = 6\<rparr>]
   \<and> pageOverlays (handleTextSelect exampleEnv zoomedSelection
        (Some exampleContainer) (run initial zoomedTrace)) 1
       = [\<lparr>rect_x = 25, rect_y = 50, rect_width = 10, rect_height = 3\<rparr>]"
  unfolding run_zoomedTrace
  by (simp add: pageOverlays_def byPage_def overlayStyle_def handler_defs example_defs)

text \<open>
  Claim C4, on the code. The stored position \<open>(100, 200, 40, 12)\<close> is projected to the
  screen at scale 2, which gives \<open>(200, 400, 80, 24)\<close>, every field multiplied by 2. The
  capture of that screen rectangle in a container with origin 0 stores
  \<open>(200, 400, 80, 24)\<close>, whatever the scale is, and not the position that was projected.
\<close>

theorem roundtrip_at_scale_two:
  "overlayStyle 2 examplePosition
     = \<lparr>rect_x = 200, rect_y = 400, rect_width = 80, rect_height = 24\<rparr>
   \<and> capturePosition (overlayStyle 2 examplePosition) originContainer
     = \<lparr>rect_x = 200, rect_y = 400, rect_width = 80, rect_height = 24\<rparr>
   \<and> capturePosition (overlayStyle 2 examplePosition) originContainer \<noteq> examplePosition"
  by (simp add: overlayStyle_def capturePosition_def example_defs fl_numeral)

subsection \<open>Loading and paging\<close>

lemma run_fivePageTrace:
  "run initial fivePageTrace =
     initial\<lparr>pickedFile := Some exampleFile, pdfBytes := Some [37, 80, 68, 70],
       numPages := Some 5, pageNumber := 5, isSelecting := True, selectedText := hello,
       highlights :=
         [\<lparr>hl_ref = 0, hl_id = 1700000000000.5, hl_text = hello, hl_pageNumber = 5,
           hl_color = ''#FFFF00'',
           hl_position = \<lparr>rect_x = 100, rect_y = 200, rect_width = 40, rect_height = 12\<rparr>\<rparr>],
       objectsMade := 1\<rparr>"
  by (simp add: run_def fivePageTrace_def handler_defs example_defs)

lemma run_append: "run s (evs @ evs') = run (run s evs) evs'"
  by (simp add: run_def)

text \<open>
  Claim C2, as the code has it. A successful load of a PDF file (the file is accepted, its
  bytes are read, the document reports \<open>n\<close> pages) sets the current page to 1 whatever
  it was, and the page count to \<open>n\<close>. No handler of the load touches the highlights:
  the list after the load is the list before it.
\<close>

theorem load_resets_page_keeps_highlights:
  "file_type f = ''application/pdf'' \<Longrightarrow>
   pageNumber (loadFile f n s) = 1
   \<and> numPages (loadFile f n s) = Some n
   \<and> pickedFile (loadFile f n s) = Some f
   \<and> pdfBytes (loadFile f n s) = Some (file_content f)
   \<and> highlights (loadFile f n s) = highlights s"
  by (simp add: loadFile_def onFileChange_def readerOnLoad_def onDocumentLoadSuccess_def)

theorem load_resets_page_keeps_highlights_witness:
  "file_type exampleFile = ''application/pdf''
   \<and> pageNumber (run initial fivePageTrace) = 5
   \<and> pageNumber (loadFile exampleFile 2 (run initial fivePageTrace)) = 1
   \<and> numPages (loadFile exampleFile 2 (run initial fivePageTrace)) = Some 2
   \<and> highlights (loadFile exampleFile 2 (run initial fivePageTrace))
       = highlights (run initial fivePageTrace)"
proof -
  have pdf: "file_type exampleFile = ''application/pdf''"
    by (simp add: exampleFile_def)
  have "pageNumber (run initial fivePageTrace) = 5"
    by (simp add: run_fivePageTrace)
  with pdf load_resets_page_keeps_highlights [OF pdf, of 2 "run initial fivePageTrace"]
  show ?thesis by simp
qed

text \<open>
  With one highlight in the store, a new file is loaded: the store still holds one
  highlight.
\<close>

theorem load_keeps_highlights_counterexample:
  "length (highlights (run initial fivePageTrace)) = 1
   \<and> length (highlights (loadFile exampleFile 2 (run initial fivePageTrace))) = 1"
  unfolding run_fivePageTrace
  by (simp add: loadFile_def onFileChange_def readerOnLoad_def onDocumentLoadSuccess_def
      example_defs)

lemma changePage_clamped:
  "numPages s = Some n \<Longrightarrow> 1 \<le> n \<Longrightarrow>
   1 \<le> pageNumber (changePage k s) \<and> pageNumber (changePage k s) \<le> n
   \<and> pageNumber (changePage k s) =
       (if pageNumber s + k < 1 then 1 else if n < pageNumber s + k then n
        else pageNumber s + k)"
  by (simp add: changePage_def Let_def)

lemma changePage_pageInRange: "pageInRange s \<Longrightarrow> pageInRange (changePage k s)"
  by (auto simp: pageInRange_def changePage_def Let_def split: option.splits)

lemma handleTextSelect_page:
  "pageNumber (handleTextSelect e sel c s) = pageNumber s
   \<and> numPages (handleTextSelect e sel c s) = numPages s"
  by (simp add: handleTextSelect_def Let_def split: option.splits)

text \<open>
  An event keeps the current page within the document, unless it is the load of a
  document without pages, or the click on the sidebar entry of a highlight whose page is
  outside the document.
\<close>

lemma step_pageInRange:
  assumes "pageInRange s"
    and "\<forall>m. ev = DocumentLoadSuccess m \<longrightarrow> 1 \<le> m"
    and "\<forall>j. ev = SidebarClick j \<and> j < length (highlights s) \<longrightarrow>
           pageInRange (navigateToHighlight (highlights s ! j) s)"
  shows "pageInRange (step s ev)"
proof (cases ev)
  case (DocumentLoadSuccess m)
  with assms(2) show ?thesis
    by (simp add: pageInRange_def onDocumentLoadSuccess_def)
next
  case PreviousPage
  with assms(1) show ?thesis
    by (simp add: previousPage_def changePage_pageInRange)
next
  case NextPage
  with assms(1) show ?thesis
    by (simp add: nextPage_def changePage_pageInRange)
next
  case (SidebarClick j)
  with assms(1,3) show ?thesis by simp
next
  case (MouseUp e sel c)
  with assms(1) show ?thesis
    by (simp add: pageInRange_def handleTextSelect_page split: option.splits)
qed (use assms(1) in \<open>simp_all add: pageInRange_def onFileChange_def readerOnLoad_def
      zoomIn_def zoomOut_def toggleHighlightMode_def setHighlightColor_def
      removeHighlight_def split: option.splits\<close>)

text \<open>
  Claim C6, as the code has it. With a document of \<open>n \<ge> 1\<close> pages loaded, a page change
  by any offset \<open>k\<close> gives the page \<open>pageNumber + k\<close> clamped into \<open>[1, n]\<close>, and never
  an error. Navigating to a highlight sets the current page to the page number of the
  highlight, without clamping, and leaves the page count. So an event keeps the current
  page within \<open>[1, n]\<close> when it is not the load of a document without pages and not the
  navigation to a highlight whose page number is outside the loaded document.
\<close>

theorem page_navigation_clamped:
  "(numPages s = Some n \<and> 1 \<le> n \<longrightarrow>
      1 \<le> pageNumber (changePage k s) \<and> pageNumber (changePage k s) \<le> n
      \<and> pageNumber (changePage k s) =
          (if pageNumber s + k < 1 then 1 else if n < pageNumber s + k then n
           else pageNumber s + k))
   \<and> numPages (changePage k s) = numPages s
   \<and> pageNumber (navigateToHighlight h s) = hl_pageNumber h
   \<and> numPages (navigateToHighlight h s) = numPages s
   \<and> (pageInRange s \<and> (\<forall>m. ev = DocumentLoadSuccess m \<longrightarrow> 1 \<le> m)
        \<and> (\<forall>j. ev = SidebarClick j \<and> j < length (highlights s) \<longrightarrow>
              pageInRange (navigateToHighlight (highlights s ! j) s))
      \<longrightarrow> pageInRange (step s ev))"
  using changePage_clamped [of s n k] step_pageInRange [of s ev]
  by (simp add: changePage_def navigateToHighlight_def Let_def)

theorem page_navigation_clamped_witness:
  "numPages (loadFile exampleFile 5 initial) = Some 5
   \<and> pageNumber (loadFile exampleFile 5 initial) = 1
   \<and> pageNumber (changePage 98 (loadFile exampleFile 5 initial)) = 5
   \<and> pageNumber (changePage (- 1) (loadFile exampleFile 5 initial)) = 1
   \<and> pageNumber (changePage 2 (loadFile exampleFile 5 initial)) = 3
   \<and> pageInRange (loadFile exampleFile 5 initial)
   \<and> pageInRange (step (loadFile exampleFile 5 initial) NextPage)
   \<and> pageNumber (step (loadFile exampleFile 5 initial) NextPage) = 2"
  using page_navigation_clamped [of "loadFile exampleFile 5 initial" 5 98 _ NextPage]
    page_navigation_clamped [of "loadFile exampleFile 5 initial" 5 "- 1" _ NextPage]
    page_navigation_clamped [of "loadFile exampleFile 5 initial" 5 2 _ NextPage]
  by (simp add: loadFile_def pageInRange_def handler_defs example_defs)

text \<open>
  A highlight is captured on page 5 of a document of five pages; a document of two pages
  is loaded, which keeps the highlight; a click on its sidebar entry sets the current
  page to 5.
\<close>

theorem stale_highlight_counterexample:
  "numPages (run initial staleTrace) = Some 2 \<and> pageNumber (run initial staleTrace) = 5"
  unfolding staleTrace_def run_append run_fivePageTrace
  by (simp add: run_def handler_defs example_defs)

subsection \<open>Export: placement of the markers\<close>

lemma indexOf_nth: "distinct xs \<Longrightarrow> i < length xs \<Longrightarrow> indexOf xs (xs ! i) = int i"
proof (induction xs arbitrary: i)
  case Nil
  then show ?case by simp
next
  case (Cons b bs)
  show ?case
  proof (cases i)
    case 0
    then show ?thesis by simp
  next
    case (Suc k)
    with Cons.prems have k: "k < length bs" and "b \<notin> set bs" and "distinct bs"
      by simp_all
    then have "b \<noteq> bs ! k" and "indexOf bs (bs ! k) = int k"
      using Cons.IH [of k] by auto
    with Suc show ?thesis by (simp add: Let_def)
  qed
qed

text \<open>
  Every highlight object of the store was created by a capture, which gave it the next
  reference: the references in the store are below the counter and pairwise distinct.
\<close>

lemma step_refs:
  assumes "distinct (map hl_ref (highlights s))"
    and "list_all (\<lambda>h. hl_ref h < objectsMade s) (highlights s)"
  shows "distinct (map hl_ref (highlights (step s ev)))
    \<and> list_all (\<lambda>h. hl_ref h < objectsMade (step s ev)) (highlights (step s ev))"
proof (cases ev)
  case (MouseUp e sel c)
  from handleTextSelect_cases [of e sel c s] show ?thesis
  proof (elim disjE exE conjE)
    assume "handleTextSelect e sel c s = s"
    with MouseUp assms show ?thesis by simp
  next
    fix r cr
    assume stored: "handleTextSelect e sel c s =
         s\<lparr>highlights := highlights s @
              [\<lparr>hl_ref = objectsMade s, hl_id = freshId e,
                hl_text = trim (sel_toString sel),
                hl_pageNumber = pageNumber s, hl_color = highlightColor s,
                hl_position = capturePosition r cr\<rparr>],
            selectedText := trim (sel_toString sel),
            objectsMade := Suc (objectsMade s)\<rparr>"
    from assms(2) have "objectsMade s \<notin> hl_ref ` set (highlights s)"
      by (auto simp: list_all_iff)
    moreover from assms(2)
    have "list_all (\<lambda>h. hl_ref h < Suc (objectsMade s)) (highlights s)"
      by (auto simp: list_all_iff)
    ultimately show ?thesis
      using MouseUp assms(1) by (simp add: stored)
  qed
next
  case (RemoveHighlight i)
  with assms show ?thesis
    by (auto simp: removeHighlight_def distinct_map_filter list_all_iff)
qed (use assms step_highlights [of s ev] in auto)

lemma run_refs:
  "distinct (map hl_ref (highlights s)) \<Longrightarrow>
   list_all (\<lambda>h. hl_ref h < objectsMade s) (highlights s) \<Longrightarrow>
   distinct (map hl_ref (highlights (run s evs)))"
  unfolding run_def
proof (induction evs arbitrary: s)
  case Nil
  then show ?case by simp
next
  case (Cons ev evs)
  from step_refs [OF Cons.prems, of ev] Cons.IH [of "step s ev"]
  show ?case by simp
qed

lemma reachable_refs: "distinct (map hl_ref (highlights (run initial evs)))"
  by (rule run_refs) (simp_all add: initial_def)

text \<open>
  On an array of separate objects, \<open>indexOf\<close> finds each highlight at its own place:
  the body of the loop draws the marker of that place.
\<close>

lemma drawHighlight_markerAt:
  assumes "distinct (map hl_ref hs)" and "i < length hs"
  shows "drawHighlight lib hs (hs ! i) d = markerAt lib i (hs ! i) d"
proof -
  have "indexOf (map hl_ref hs) (map hl_ref hs ! i) = int i"
    using assms by (intro indexOf_nth) simp_all
  with assms(2) have "indexOf (map hl_ref hs) (hl_ref (hs ! i)) = int i"
    by simp
  then show ?thesis
    by (simp add: drawHighlight_def markerAt_def rectangleOptions_def textOptions_def
        Let_def split: option.splits)
qed

lemma drawHighlights_markersFrom:
  assumes "distinct (map hl_ref hs)"
  shows "hs = pre @ rest \<Longrightarrow>
    drawHighlights lib hs rest d = markersFrom lib (length pre) rest d"
proof (induction rest arbitrary: pre d)
  case Nil
  then show ?case by simp
next
  case (Cons h rest)
  from Cons.prems have h: "h = hs ! length pre" and l: "length pre < length hs"
    by simp_all
  from assms l have "drawHighlight lib hs (hs ! length pre) d
      = markerAt lib (length pre) (hs ! length pre) d"
    by (rule drawHighlight_markerAt)
  with h have here: "drawHighlight lib hs h d = markerAt lib (length pre) h d"
    by simp
  from Cons.prems have "hs = (pre @ [h]) @ rest" by simp
  then have "\<And>d'. drawHighlights lib hs rest d'
      = markersFrom lib (length (pre @ [h])) rest d'"
    by (rule Cons.IH)
  with here show ?case by (simp split: option.splits)
qed

text \<open>
  Claim C3, as the code has it. In every state that a session reaches, for every library
  and document: the marker of the highlight at place \<open>i\<close> of the whole list of highlights
  is drawn on the highlight's page with the rectangle at \<open>height - 100 - 20 i\<close> and the
  label at \<open>height - 95 - 20 i\<close> (in double arithmetic), where \<open>height\<close> is the height of
  that page; the loop of the export draws the markers place by place, and \<open>savePDF\<close> is
  the export by place. The vertical offset comes from the place in the list of all
  highlights, and neither from the place among the highlights of the same page nor from
  the stored position.
\<close>

theorem export_offset_by_global_index:
  "i < length (highlights (run initial evs)) \<Longrightarrow>
   drawHighlight lib (highlights (run initial evs)) (highlights (run initial evs) ! i) d
     = markerAt lib i (highlights (run initial evs) ! i) d
   \<and> drawHighlights lib (highlights (run initial evs)) (highlights (run initial evs)) d
     = markersFrom lib 0 (highlights (run initial evs)) d
   \<and> savePDF lib (run initial evs) = exportByPlace lib (run initial evs)"
proof -
  assume i: "i < length (highlights (run initial evs))"
  note refs = reachable_refs [of evs]
  have loop: "drawHighlights lib (highlights (run initial evs)) (highlights (run initial evs)) d'
      = markersFrom lib 0 (highlights (run initial evs)) d'" for d'
    using drawHighlights_markersFrom [OF refs, of "[]" "highlights (run initial evs)" lib d']
    by simp
  then have "savePDF lib (run initial evs) = exportByPlace lib (run initial evs)"
    by (simp add: savePDF_def exportByPlace_def split: option.splits)
  with loop [of d] drawHighlight_markerAt [OF refs i, of lib d] show ?thesis
    by simp
qed

lemmas export_defs =
  exampleLib_def failingSaveLib_def failingRectangleLib_def failingTextLib_def
  blankPages_def recorderLib_def drawOn_def drawHighlight_def markerAt_def
  rectangleOptions_def textOptions_def hexChannels_def byPage_def

lemma run_repeatedTrace:
  "highlights (run initial repeatedTrace) =
     [\<lparr>hl_ref = 0, hl_id = 1700000000000.5, hl_text = hello, hl_pageNumber = 1,
       hl_color = ''#FFFF00'',
       hl_position = \<lparr>rect_x = 100, rect_y = 200, rect_width = 40, rect_height = 12\<rparr>\<rparr>,
      \<lparr>hl_ref = 1, hl_id = 1700000000000.5, hl_text = hello, hl_pageNumber = 1,
       hl_color = ''#FFFF00'',
       hl_position = \<lparr>rect_x = 100, rect_y = 200, rect_width = 40, rect_height = 12\<rparr>\<rparr>]"
  by (simp add: run_def repeatedTrace_def handler_defs example_defs)

text \<open>
  The same selection captured twice: the two highlights agree in all five properties,
  and their markers are drawn at the offsets of the places 0 and 1, at 700 and at 680.
\<close>

theorem export_offset_by_global_index_witness:
  "1 < length (highlights (run initial repeatedTrace))
   \<and> drawHighlight exampleLib (highlights (run initial repeatedTrace))
        (highlights (run initial repeatedTrace) ! 1) blankPages
      = markerAt exampleLib 1 (highlights (run initial repeatedTrace) ! 1) blankPages
   \<and> drawHighlights exampleLib (highlights (run initial repeatedTrace))
        (highlights (run initial repeatedTrace)) blankPages
      = Some
         [\<lparr>page_height = 800, page_ops =
            [DrawRectangle \<lparr>ro_x = 50, ro_y = 700, ro_width = 200, ro_height = 15,
               ro_color = (''FF'', ''FF'', ''00''), ro_opacity = 0.5\<rparr>,
             DrawText hello \<lparr>to_x = 55, to_y = 705, to_size = 8\<rparr>,
             DrawRectangle \<lparr>ro_x = 50, ro_y = 680, ro_width = 200, ro_height = 15,
               ro_color = (''FF'', ''FF'', ''00''), ro_opacity = 0.5\<rparr>,
             DrawText hello \<lparr>to_x = 55, to_y = 685, to_size = 8\<rparr>]\<rparr>,
          \<lparr>page_height = 800, page_ops = []\<rparr>]"
proof -
  have l: "1 < length (highlights (run initial repeatedTrace))"
    by (simp add: run_repeatedTrace)
  note whole = export_offset_by_global_index [OF l, of exampleLib blankPages]
  have "markersFrom exampleLib 0 (highlights (run initial repeatedTrace)) blankPages
      = Some
         [\<lparr>page_height = 800, page_ops =
            [DrawRectangle \<lparr>ro_x = 50, ro_y = 700, ro_width = 200, ro_height = 15,
               ro_color = (''FF'', ''FF'', ''00''), ro_opacity = 0.5\<rparr>,
             DrawText hello \<lparr>to_x = 55, to_y = 705, to_size = 8\<rparr>,
             DrawRectangle \<lparr>ro_x = 50, ro_y = 680, ro_width = 200, ro_height = 15,
               ro_color = (''FF'', ''FF'', ''00''), ro_opacity = 0.5\<rparr>,
             DrawText hello \<lparr>to_x = 55, to_y = 685, to_size = 8\<rparr>]\<rparr>,
          \<lparr>page_height = 800, page_ops = []\<rparr>]"
    unfolding run_repeatedTrace
    by (simp add: export_defs fl_numeral fl_zero take_Cons' hello_def)
  with l whole show ?thesis by simp
qed

text \<open>
  One highlight on page 1 and then one on page 2 of a document whose pages are 800 high:
  the highlight of page 2 is the first of its page, for which the claim gives the offset
  700, and the second of the list; its rectangle is drawn at 680 and its label at 685.
\<close>

theorem export_offset_counterexample:
  "byPage 2 (highlights (run initial twoPageTrace)) = [highlights (run initial twoPageTrace) ! 1]
   \<and> indexOf (map hl_ref (byPage 2 (highlights (run initial twoPageTrace))))
        (hl_ref (highlights (run initial twoPageTrace) ! 1)) = 0
   \<and> ro_y (rectangleOptions 800 (highlights (run initial twoPageTrace))
        (highlights (run initial twoPageTrace) ! 1)) = 680
   \<and> ro_y (rectangleOptions 800 (highlights (run initial twoPageTrace))
        (highlights (run initial twoPageTrace) ! 1))
      \<noteq> ro_y (rectangleOptions 800 (byPage 2 (highlights (run initial twoPageTrace)))
            (highlights (run initial twoPageTrace) ! 1))
   \<and> drawHighlights exampleLib (highlights (run initial twoPageTrace))
        (highlights (run initial twoPageTrace)) blankPages
      = Some
         [\<lparr>page_height = 800, page_ops =
            [DrawRectangle \<lparr>ro_x = 50, ro_y = 700, ro_width = 200, ro_height = 15,
               ro_color = (''FF'', ''FF'', ''00''), ro_opacity = 0.5\<rparr>,
             DrawText hello \<lparr>to_x = 55, to_y = 705, to_size = 8\<rparr>]\<rparr>,
          \<lparr>page_height = 800, page_ops =
            [DrawRectangle \<lparr>ro_x = 50, ro_y = 680, ro_width = 200, ro_height = 15,
               ro_color = (''FF'', ''FF'', ''00''), ro_opacity = 0.5\<rparr>,
             DrawText world \<lparr>to_x = 55, to_y = 685, to_size = 8\<rparr>]\<rparr>]"
  unfolding run_twoPageTrace
  by (simp add: export_defs fl_numeral fl_zero take_Cons' hello_def world_def)

subsection \<open>Export: failure\<close>

lemma drawHighlights_append:
  "drawHighlights lib hs (xs @ ys) d =
     (case drawHighlights lib hs xs d of None \<Rightarrow> None | Some d1 \<Rightarrow> drawHighlights lib hs ys d1)"
  by (induction xs arbitrary: d) (simp_all split: option.splits)

lemma drawHighlights_fails_at:
  "drawHighlights lib hs xs d = Some d1 \<Longrightarrow> drawHighlight lib hs h d1 = None \<Longrightarrow>
   drawHighlights lib hs (xs @ h # ys) d = None"
  by (simp add: drawHighlights_append)

text \<open>The body of the loop fails exactly when one of its three library calls does.\<close>

lemma drawHighlight_None_iff:
  "drawHighlight lib hs h d = None \<longleftrightarrow>
     (lib_getPageHeight lib d (hl_pageNumber h - 1) = None
      \<or> (\<exists>height. lib_getPageHeight lib d (hl_pageNumber h - 1) = Some height
            \<and> (lib_drawRectangle lib d (hl_pageNumber h - 1) (rectangleOptions height hs h) = None
               \<or> (\<exists>d1. lib_drawRectangle lib d (hl_pageNumber h - 1)
                          (rectangleOptions height hs h) = Some d1
                     \<and> lib_drawText lib d1 (hl_pageNumber h - 1) (take 50 (hl_text h))
                          (textOptions height hs h) = None))))"
  by (auto simp: drawHighlight_def Let_def split: option.splits)

lemma savePDF_state: "fst (savePDF lib s) = s"
  by (simp add: savePDF_def split: option.splits)

lemma savePDF_draw_fails:
  assumes "pdfBytes s = Some b" and "lib_load lib b = Some d"
    and "highlights s = xs @ h # ys"
    and "drawHighlights lib (highlights s) xs d = Some d1"
    and "drawHighlight lib (highlights s) h d1 = None"
  shows "snd (savePDF lib s) = [Toast_error ''Failed to save PDF'']"
proof -
  from assms(4,5) have "drawHighlights lib (highlights s) (xs @ h # ys) d = None"
    by (rule drawHighlights_fails_at)
  with assms(3) have "drawHighlights lib (highlights s) (highlights s) d = None"
    by simp
  with assms(1,2) show ?thesis
    by (simp add: savePDF_def)
qed

lemma savePDF_download:
  "Download out name \<in> set (snd (savePDF lib s)) \<Longrightarrow>
   \<exists>b d d2. pdfBytes s = Some b \<and> lib_load lib b = Some d
     \<and> drawHighlights lib (highlights s) (highlights s) d = Some d2
     \<and> lib_save lib d2 = Some out"
  by (auto simp: savePDF_def split: option.splits)

text \<open>
  Claim C7. \<open>savePDF\<close> never changes the state, so the highlights and the document are
  after it what they were. With the bytes of a document in the state, the only effect is
  the error toast \<open>Failed to save PDF\<close>, and no file is offered, when the library fails
  to open the bytes; when, for some highlight of the list, after the highlights before it
  were drawn, the library fails to give the page or its height, or fails to draw the
  rectangle, or fails to draw the label; or when the library fails to save. A file is
  offered for download only with the bytes that \<open>save\<close> returned after the whole
  sequence went through.
\<close>

theorem export_all_or_nothing:
  "fst (savePDF lib s) = s
   \<and> (pdfBytes s = Some b \<and> lib_load lib b = None \<longrightarrow>
        snd (savePDF lib s) = [Toast_error ''Failed to save PDF''])
   \<and> (pdfBytes s = Some b \<and> lib_load lib b = Some d \<and> highlights s = xs @ h # ys
        \<and> drawHighlights lib (highlights s) xs d = Some d1
        \<and> lib_getPageHeight lib d1 (hl_pageNumber h - 1) = None \<longrightarrow>
        snd (savePDF lib s) = [Toast_error ''Failed to save PDF''])
   \<and> (pdfBytes s = Some b \<and> lib_load lib b = Some d \<and> highlights s = xs @ h # ys
        \<and> drawHighlights lib (highlights s) xs d = Some d1
        \<and> lib_getPageHeight lib d1 (hl_pageNumber h - 1) = Some height
        \<and> lib_drawRectangle lib d1 (hl_pageNumber h - 1)
            (rectangleOptions height (highlights s) h) = None \<longrightarrow>
        snd (savePDF lib s) = [Toast_error ''Failed to save PDF''])
   \<and> (pdfBytes s = Some b \<and> lib_load lib b = Some d \<and> highlights s = xs @ h # ys
        \<and> drawHighlights lib (highlights s) xs d = Some d1
        \<and> lib_getPageHeight lib d1 (hl_pageNumber h - 1) = Some height
        \<and> lib_drawRectangle lib d1 (hl_pageNumber h - 1)
            (rectangleOptions height (highlights s) h) = Some dr
        \<and> lib_drawText lib dr (hl_pageNumber h - 1) (take 50 (hl_text h))
            (textOptions height (highlights s) h) = None \<longrightarrow>
        snd (savePDF lib s) = [Toast_error ''Failed to save PDF''])
   \<and> (pdfBytes s = Some b \<and> lib_load lib b = Some d
        \<and> drawHighlights lib (highlights s) (highlights s) d = Some d2
        \<and> lib_save lib d2 = None \<longrightarrow>
        snd (savePDF lib s) = [Toast_error ''Failed to save PDF''])
   \<and> (pdfBytes s = Some b \<and> lib_load lib b = Some d
        \<and> drawHighlights lib (highlights s) (highlights s) d = Some d2
        \<and> lib_save lib d2 = Some out \<longrightarrow>
        snd (savePDF lib s) =
          [Download out ''edited_document.pdf'', Toast_success ''PDF saved successfully''])
   \<and> (\<forall>bs name. Download bs name \<in> set (snd (savePDF lib s)) \<longrightarrow>
        (\<exists>b0 d0 d3. pdfBytes s = Some b0 \<and> lib_load lib b0 = Some d0
           \<and> drawHighlights lib (highlights s) (highlights s) d0 = Some d3
           \<and> lib_save lib d3 = Some bs))"
proof -
  have unchanged: "fst (savePDF lib s) = s"
    by (rule savePDF_state)
  have load_fails: "pdfBytes s = Some b \<and> lib_load lib b = None \<longrightarrow>
      snd (savePDF lib s) = [Toast_error ''Failed to save PDF'']"
    by (simp add: savePDF_def)
  have page_fails: "pdfBytes s = Some b \<and> lib_load lib b = Some d \<and> highlights s = xs @ h # ys
      \<and> drawHighlights lib (highlights s) xs d = Some d1
      \<and> lib_getPageHeight lib d1 (hl_pageNumber h - 1) = None \<longrightarrow>
      snd (savePDF lib s) = [Toast_error ''Failed to save PDF'']"
  proof (intro impI, elim conjE)
    assume "pdfBytes s = Some b" and "lib_load lib b = Some d"
      and "highlights s = xs @ h # ys"
      and "drawHighlights lib (highlights s) xs d = Some d1"
      and "lib_getPageHeight lib d1 (hl_pageNumber h - 1) = None"
    moreover from this(5) have "drawHighlight lib (highlights s) h d1 = None"
      by (simp add: drawHighlight_None_iff)
    ultimately show "snd (savePDF lib s) = [Toast_error ''Failed to save PDF'']"
      by (intro savePDF_draw_fails)
  qed
  have rectangle_fails: "pdfBytes s = Some b \<and> lib_load lib b = Some d
      \<and> highlights s = xs @ h # ys
      \<and> drawHighlights lib (highlights s) xs d = Some d1
      \<and> lib_getPageHeight lib d1 (hl_pageNumber h - 1) = Some height
      \<and> lib_drawRectangle lib d1 (hl_pageNumber h - 1)
          (rectangleOptions height (highlights s) h) = None \<longrightarrow>
      snd (savePDF lib s) = [Toast_error ''Failed to save PDF'']"
  proof (intro impI, elim conjE)
    assume "pdfBytes s = Some b" and "lib_load lib b = Some d"
      and "highlights s = xs @ h # ys"
      and "drawHighlights lib (highlights s) xs d = Some d1"
      and "lib_getPageHeight lib d1 (hl_pageNumber h - 1) = Some height"
      and "lib_drawRectangle lib d1 (hl_pageNumber h - 1)
          (rectangleOptions height (highlights s) h) = None"
    moreover from this(5,6) have "drawHighlight lib (highlights s) h d1 = None"
      by (simp add: drawHighlight_None_iff)
    ultimately show "snd (savePDF lib s) = [Toast_error ''Failed to save PDF'']"
      by (intro savePDF_draw_fails)
  qed
  have text_fails: "pdfBytes s = Some b \<and> lib_load lib b = Some d
      \<and> highlights s = xs @ h # ys
      \<and> drawHighlights lib (highlights s) xs d = Some d1
      \<and> lib_getPageHeight lib d1 (hl_pageNumber h - 1) = Some height
      \<and> lib_drawRectangle lib d1 (hl_pageNumber h - 1)
          (rectangleOptions height (highlights s) h) = Some dr
      \<and> lib_drawText lib dr (hl_pageNumber h - 1) (take 50 (hl_text h))
          (textOptions height (highlights s) h) = None \<longrightarrow>
      snd (savePDF lib s) = [Toast_error ''Failed to save PDF'']"
  proof (intro impI, elim conjE)
    assume "pdfBytes s = Some b" and "lib_load lib b = Some d"
      and "highlights s = xs @ h # ys"
      and "drawHighlights lib (highlights s) xs d = Some d1"
      and "lib_getPageHeight lib d1 (hl_pageNumber h - 1) = Some height"
      and "lib_drawRectangle lib d1 (hl_pageNumber h - 1)
          (rectangleOptions height (highlights s) h) = Some dr"
      and "lib_drawText lib dr (hl_pageNumber h - 1) (take 50 (hl_text h))
          (textOptions height (highlights s) h) = None"
    moreover from this(5,6,7) have "drawHighlight lib (highlights s) h d1 = None"
      by (simp add: drawHighlight_None_iff)
    ultimately show "snd (savePDF lib s) = [Toast_error ''Failed to save PDF'']"
      by (intro savePDF_draw_fails)
  qed
  have save_fails: "pdfBytes s = Some b \<and> lib_load lib b = Some d
      \<and> drawHighlights lib (highlights s) (highlights s) d = Some d2
      \<and> lib_save lib d2 = None \<longrightarrow>
      snd (savePDF lib s) = [Toast_error ''Failed to save PDF'']"
    by (simp add: savePDF_def)
  have complete: "pdfBytes s = Some b \<and> lib_load lib b = Some d
      \<and> drawHighlights lib (highlights s) (highlights s) d = Some d2
      \<and> lib_save lib d2 = Some out \<longrightarrow>
      snd (savePDF lib s) =
        [Download out ''edited_document.pdf'', Toast_success ''PDF saved successfully'']"
    by (simp add: savePDF_def)
  have offered: "\<forall>bs name. Download bs name \<in> set (snd (savePDF lib s)) \<longrightarrow>
      (\<exists>b0 d0 d3. pdfBytes s = Some b0 \<and> lib_load lib b0 = Some d0
         \<and> drawHighlights lib (highlights s) (highlights s) d0 = Some d3
         \<and> lib_save lib d3 = Some bs)"
    using savePDF_download [of _ _ lib s] by blast
  from unchanged load_fails page_fails rectangle_fails text_fails save_fails complete offered
  show ?thesis
    by (intro conjI)
qed

text \<open>
  The session with one highlight on each of two pages is exported with a library whose
  \<open>save\<close> fails, with one whose \<open>drawRectangle\<close> fails, with one whose \<open>drawText\<close>
  fails, and with nothing failing; and a session is exported in which a highlight of
  page 5 was kept from an earlier document, so that \<open>getPage\<close> fails.
\<close>

theorem export_all_or_nothing_witness:
  "pdfBytes (run initial twoPageTrace) = Some [37, 80, 68, 70]
   \<and> length (highlights (run initial twoPageTrace)) = 2
   \<and> savePDF failingSaveLib (run initial twoPageTrace)
       = (run initial twoPageTrace, [Toast_error ''Failed to save PDF''])
   \<and> savePDF exampleLib (loadFile exampleFile 2 (run initial fivePageTrace))
       = (loadFile exampleFile 2 (run initial fivePageTrace),
          [Toast_error ''Failed to save PDF''])
   \<and> savePDF failingRectangleLib (run initial twoPageTrace)
       = (run initial twoPageTrace, [Toast_error ''Failed to save PDF''])
   \<and> savePDF failingTextLib (run initial twoPageTrace)
       = (run initial twoPageTrace, [Toast_error ''Failed to save PDF''])
   \<and> savePDF exampleLib (run initial twoPageTrace)
       = (run initial twoPageTrace,
          [Download [37, 80, 68, 70, 10] ''edited_document.pdf'',
           Toast_success ''PDF saved successfully''])"
proof -
  let ?s = "run initial twoPageTrace"
  let ?t = "loadFile exampleFile 2 (run initial fivePageTrace)"
  let ?h = "hd (highlights ?s)"
  let ?ys = "tl (highlights ?s)"
  have bytes: "pdfBytes ?s = Some [37, 80, 68, 70]"
    by (simp add: run_def twoPageTrace_def handler_defs example_defs)
  have opened: "lib_load failingSaveLib [37, 80, 68, 70] = Some blankPages"
    "lib_load exampleLib [37, 80, 68, 70] = Some blankPages"
    "lib_load failingRectangleLib [37, 80, 68, 70] = Some blankPages"
    "lib_load failingTextLib [37, 80, 68, 70] = Some blankPages"
    by (simp_all add: export_defs)
  have drawn: "\<exists>d2. drawHighlights failingSaveLib (highlights ?s) (highlights ?s) blankPages = Some d2
      \<and> drawHighlights exampleLib (highlights ?s) (highlights ?s) blankPages = Some d2
      \<and> lib_save failingSaveLib d2 = None \<and> lib_save exampleLib d2 = Some [37, 80, 68, 70, 10]"
    unfolding run_twoPageTrace by (simp add: export_defs)
  then obtain d2 where
    d2: "drawHighlights failingSaveLib (highlights ?s) (highlights ?s) blankPages = Some d2"
      "drawHighlights exampleLib (highlights ?s) (highlights ?s) blankPages = Some d2"
      "lib_save failingSaveLib d2 = None" "lib_save exampleLib d2 = Some [37, 80, 68, 70, 10]"
    by blast
  have first: "highlights ?s = [] @ ?h # ?ys"
    "drawHighlights failingRectangleLib (highlights ?s) [] blankPages = Some blankPages"
    "drawHighlights failingTextLib (highlights ?s) [] blankPages = Some blankPages"
    "lib_getPageHeight failingRectangleLib blankPages (hl_pageNumber ?h - 1) = Some 800"
    "lib_getPageHeight failingTextLib blankPages (hl_pageNumber ?h - 1) = Some 800"
    "lib_drawRectangle failingRectangleLib blankPages (hl_pageNumber ?h - 1)
        (rectangleOptions 800 (highlights ?s) ?h) = None"
    unfolding run_twoPageTrace by (simp_all add: export_defs)
  have "\<exists>dr. lib_drawRectangle failingTextLib blankPages (hl_pageNumber ?h - 1)
        (rectangleOptions 800 (highlights ?s) ?h) = Some dr
      \<and> lib_drawText failingTextLib dr (hl_pageNumber ?h - 1) (take 50 (hl_text ?h))
          (textOptions 800 (highlights ?s) ?h) = None"
    unfolding run_twoPageTrace by (simp add: export_defs)
  then obtain dr where
    dr: "lib_drawRectangle failingTextLib blankPages (hl_pageNumber ?h - 1)
        (rectangleOptions 800 (highlights ?s) ?h) = Some dr"
      "lib_drawText failingTextLib dr (hl_pageNumber ?h - 1) (take 50 (hl_text ?h))
          (textOptions 800 (highlights ?s) ?h) = None"
    by blast
  have stale: "pdfBytes ?t = Some [37, 80, 68, 70]"
    "highlights ?t = [] @ hd (highlights ?t) # []"
    "drawHighlights exampleLib (highlights ?t) [] blankPages = Some blankPages"
    "lib_getPageHeight exampleLib blankPages (hl_pageNumber (hd (highlights ?t)) - 1) = None"
    unfolding run_fivePageTrace
    by (simp_all add: loadFile_def export_defs handler_defs example_defs)
  have "length (highlights ?s) = 2"
    by (simp add: run_twoPageTrace)
  moreover have "savePDF failingSaveLib ?s = (?s, [Toast_error ''Failed to save PDF''])"
  proof -
    note whole = export_all_or_nothing [where lib = failingSaveLib and s = ?s
        and b = "[37, 80, 68, 70]" and d = blankPages and ?d2.0 = d2]
    from whole have "fst (savePDF failingSaveLib ?s) = ?s"
      by (rule conjunct1)
    moreover from whole [THEN conjunct2, THEN conjunct2, THEN conjunct2, THEN conjunct2,
        THEN conjunct2, THEN conjunct1] bytes opened(1) d2(1,3)
    have "snd (savePDF failingSaveLib ?s) = [Toast_error ''Failed to save PDF'']"
      by simp
    ultimately show ?thesis
      by (simp add: prod_eq_iff)
  qed
  moreover have "savePDF exampleLib ?t = (?t, [Toast_error ''Failed to save PDF''])"
  proof -
    note whole = export_all_or_nothing [where lib = exampleLib and s = ?t
        and b = "[37, 80, 68, 70]" and d = blankPages and xs = "[]"
        and h = "hd (highlights ?t)" and ys = "[]" and ?d1.0 = blankPages]
    from whole have "fst (savePDF exampleLib ?t) = ?t"
      by (rule conjunct1)
    moreover from whole [THEN conjunct2, THEN conjunct2, THEN conjunct1] stale opened(2)
    have "snd (savePDF exampleLib ?t) = [Toast_error ''Failed to save PDF'']"
      by simp
    ultimately show ?thesis
      by (simp add: prod_eq_iff)
  qed
  moreover have "savePDF failingRectangleLib ?s = (?s, [Toast_error ''Failed to save PDF''])"
  proof -
    note whole = export_all_or_nothing [where lib = failingRectangleLib and s = ?s
        and b = "[37, 80, 68, 70]" and d = blankPages and xs = "[]"
        and h = ?h and ys = ?ys and ?d1.0 = blankPages and height = 800]
    from whole have "fst (savePDF failingRectangleLib ?s) = ?s"
      by (rule conjunct1)
    moreover from whole [THEN conjunct2, THEN conjunct2, THEN conjunct2, THEN conjunct1]
      bytes opened(3) first(1,2,4,6)
    have "snd (savePDF failingRectangleLib ?s) = [Toast_error ''Failed to save PDF'']"
      by simp
    ultimately show ?thesis
      by (simp add: prod_eq_iff)
  qed
  moreover have "savePDF failingTextLib ?s = (?s, [Toast_error ''Failed to save PDF''])"
  proof -
    note whole = export_all_or_nothing [where lib = failingTextLib and s = ?s
        and b = "[37, 80, 68, 70]" and d = blankPages and xs = "[]"
        and h = ?h and ys = ?ys and ?d1.0 = blankPages and height = 800 and dr = dr]
    from whole have "fst (savePDF failingTextLib ?s) = ?s"
      by (rule conjunct1)
    moreover from whole [THEN conjunct2, THEN conjunct2, THEN conjunct2, THEN conjunct2,
        THEN conjunct1] bytes opened(4) first(1,3,5) dr
    have "snd (savePDF failingTextLib ?s) = [Toast_error ''Failed to save PDF'']"
      by simp
    ultimately show ?thesis
      by (simp add: prod_eq_iff)
  qed
  moreover have "savePDF exampleLib ?s =
      (?s, [Download [37, 80, 68, 70, 10] ''edited_document.pdf'',
            Toast_success ''PDF saved successfully''])"
  proof -
    note whole = export_all_or_nothing [where lib = exampleLib and s = ?s
        and b = "[37, 80, 68, 70]" and d = blankPages and ?d2.0 = d2
        and out = "[37, 80, 68, 70, 10]"]
    from whole have "fst (savePDF exampleLib ?s) = ?s"
      by (rule conjunct1)
    moreover from whole [THEN conjunct2, THEN conjunct2, THEN conjunct2, THEN conjunct2,
        THEN conjunct2, THEN conjunct2, THEN conjunct1] bytes opened(2) d2(2,4)
    have "snd (savePDF exampleLib ?s) =
        [Download [37, 80, 68, 70, 10] ''edited_document.pdf'',
         Toast_success ''PDF saved successfully'']"
      by simp
    ultimately show ?thesis
      by (simp add: prod_eq_iff)
  qed
  ultimately show ?thesis
    using bytes by simp
qed

end
